theory Spec2Isabelle
  imports Complex_Main
begin

section \<open>Python exceptions\<close>

text \<open>
  The exceptions the notebook's functions can end in. \<open>LibraryError\<close> stands for any
  exception raised inside a call into librosa, scikit-learn, SciPy or matplotlib that the
  notebook neither catches nor causes by its own control flow.
\<close>

datatype py_error =
    ZeroDivisionError
  | UnboundLocalError
  | ValueError
  | KeyError string
  | LibraryError string

section \<open>Helper methods: the dimension calculator\<close>

text \<open>
  Python's \<open>a // b\<close> on integers: floor division, raising \<open>ZeroDivisionError\<close> when
  \<open>b = 0\<close>. On \<open>int\<close>, HOL's \<open>div\<close> rounds towards minus infinity as Python does.
\<close>

definition floordiv :: "int \<Rightarrow> int \<Rightarrow> py_error + int" where
  "floordiv a b = (if b = 0 then Inl ZeroDivisionError else Inr (a div b))"

text \<open>
  \<^verbatim>\<open>
  def calculate_spectrogram_dimensions(sample_length, n_fft, hop_length, sr=16000):
      total_samples = sr * sample_length
      frequency_bins = n_fft // 2 + 1
      time_frames = 1 + (total_samples - n_fft) // hop_length
      return frequency_bins, time_frames
  \<close>
  The arguments are Python integers (unbounded), in the source's order.
\<close>

definition calculate_spectrogram_dimensions ::
    "int \<Rightarrow> int \<Rightarrow> int \<Rightarrow> int \<Rightarrow> py_error + int \<times> int" where
  "calculate_spectrogram_dimensions sample_length n_fft hop_length sr =
     (let total_samples = sr * sample_length in
      case floordiv n_fft 2 of
        Inl e \<Rightarrow> Inl e
      | Inr half \<Rightarrow>
          (let frequency_bins = half + 1 in
           case floordiv (total_samples - n_fft) hop_length of
             Inl e \<Rightarrow> Inl e
           | Inr q \<Rightarrow> (let time_frames = 1 + q in Inr (frequency_bins, time_frames))))"

section \<open>Arrays, events and the audio library\<close>

text \<open>
  A waveform is a one-dimensional array of samples. A feature matrix is a two-dimensional
  array: its shape \<open>(rows, cols)\<close> and its entries in row-major order. The samples and
  entries are floating-point numbers in the source; no result below computes with them,
  they are only passed on, and \<open>real\<close> stands for them.
\<close>

type_synonym waveform = "real list"

datatype matrix = Matrix (mshape: "nat \<times> nat") (mdata: "real list")

text \<open>
  What \<open>np.array\<close> returns for a list of feature matrices: \<open>bshape\<close> is the array's
  \<open>.shape\<close> and \<open>bitems\<close> are its slices along the first axis, in order.
\<close>

datatype batch = Batch (bshape: "nat list") (bitems: "matrix list")

text \<open>
  \<open>np.array\<close> on a list of two-dimensional arrays: the empty list gives the empty
  one-dimensional array of shape \<open>(0,)\<close>; \<open>N \<ge> 1\<close> arrays of one common shape
  \<open>(r, c)\<close> are stacked to shape \<open>(N, r, c)\<close>; arrays of different shapes are refused with
  \<open>ValueError\<close> (an inhomogeneous shape).
\<close>

definition np_array :: "matrix list \<Rightarrow> py_error + batch" where
  "np_array xs =
     (case xs of
        [] \<Rightarrow> Inr (Batch [0] [])
      | x # rest \<Rightarrow>
          if list_all (\<lambda>y. mshape y = mshape x) rest
          then Inr (Batch [length xs, fst (mshape x), snd (mshape x)] xs)
          else Inl ValueError)"

text \<open>
  What a call leaves behind besides its value: a figure that matplotlib has rendered and
  shown (title and the matrix drawn), and the three kinds of line \<open>extract_features\<close>
  logs.
\<close>

datatype event =
    Figure string matrix
  | LogExtracted nat nat
  | LogExtractedFrom nat
  | LogFeaturesShape "nat list"

text \<open>
  The numerical transforms the extractors call, as parameters: every theorem below holds
  for whatever these functions compute. \<open>'c\<close> is the type of the complex matrices
  returned by \<open>librosa.stft\<close>. Arguments are in the order
  \<open>stft y n_fft hop_length\<close>, \<open>melspectrogram y sr n_fft hop_length n_mels\<close>,
  \<open>mfcc y sr n_mfcc n_fft hop_length\<close>, \<open>chroma_stft S n_chroma sr\<close> and
  \<open>spectral_contrast S sr\<close>. \<open>np_abs\<close> is \<open>np.abs\<close> and \<open>np_square\<close> is \<open>**2\<close>.
  \<open>amplitude_to_db\<close> and \<open>power_to_db\<close> are called with \<open>ref=np.max\<close>.

  The plotting calls are parameters as well, each giving the exception it raises or
  \<open>None\<close> when it returns: \<open>plt.figure(figsize=(14, 5))\<close>,
  \<open>librosa.display.specshow(data, sr=sr, x_axis=..., y_axis=..., fmax=...)\<close> (arguments
  \<open>data sr x_axis y_axis fmax\<close>), \<open>plt.title(title)\<close>, \<open>plt.colorbar(format=...)\<close> and
  \<open>plt.show()\<close>.
\<close>

record 'c librosa =
  stft :: "waveform \<Rightarrow> int \<Rightarrow> int \<Rightarrow> py_error + 'c"
  np_abs :: "'c \<Rightarrow> matrix"
  np_square :: "matrix \<Rightarrow> matrix"
  amplitude_to_db :: "matrix \<Rightarrow> py_error + matrix"
  power_to_db :: "matrix \<Rightarrow> py_error + matrix"
  melspectrogram :: "waveform \<Rightarrow> int \<Rightarrow> int \<Rightarrow> int \<Rightarrow> int \<Rightarrow> py_error + matrix"
  mfcc :: "waveform \<Rightarrow> int \<Rightarrow> int \<Rightarrow> int \<Rightarrow> int \<Rightarrow> py_error + matrix"
  chroma_stft :: "matrix \<Rightarrow> int \<Rightarrow> int \<Rightarrow> py_error + matrix"
  spectral_contrast :: "matrix \<Rightarrow> int \<Rightarrow> py_error + matrix"
  plt_figure :: "py_error option"
  specshow :: "matrix \<Rightarrow> int \<Rightarrow> string \<Rightarrow> string \<Rightarrow> int option \<Rightarrow> py_error option"
  plt_title :: "string \<Rightarrow> py_error option"
  plt_colorbar :: "string option \<Rightarrow> py_error option"
  plt_show :: "py_error option"

section \<open>Extract specific features\<close>

text \<open>
  The block under \<open>if show_plt:\<close> of an extractor is five plotting calls in a row,
  \<^verbatim>\<open>
  plt.figure(figsize=(14, 5))
  librosa.display.specshow(data, sr=sr, x_axis='time', y_axis=..., fmax=...)
  plt.title(title)
  plt.colorbar(format=...)
  plt.show()
  \<close>
  An exception raised by one of them ends the block and the extractor; when all five return,
  the figure has been shown.
\<close>

fun first_raised :: "py_error option list \<Rightarrow> py_error option" where
  "first_raised [] = None"
| "first_raised (Some e # calls) = Some e"
| "first_raised (None # calls) = first_raised calls"

definition show_figure ::
    "'c librosa \<Rightarrow> matrix \<Rightarrow> int \<Rightarrow> string \<Rightarrow> int option \<Rightarrow> string \<Rightarrow> string option
      \<Rightarrow> event list \<times> (py_error + unit)" where
  "show_figure L data sr y_axis fmax title colorbar_format =
     (case first_raised
             [plt_figure L,
              specshow L data sr ''time'' y_axis fmax,
              plt_title L title,
              plt_colorbar L colorbar_format,
              plt_show L] of
        Some e \<Rightarrow> ([], Inl e)
      | None \<Rightarrow> ([Figure title data], Inr ()))"

text \<open>
  Each extractor returns the figures it has shown and either the exception it ended in or
  its feature matrix. The plotting block runs after the matrix is computed and before the
  \<open>return\<close>: it only reads the matrix, and an exception in it replaces the result.

  \<^verbatim>\<open>
  def extract_MFCCs(y, sr, n_fft, hop_length, n_mfcc=128, show_plt=False):
      mfccs = librosa.feature.mfcc(y=y, sr=sr, n_mfcc=n_mfcc, n_fft=n_fft, hop_length=hop_length)
      if show_plt:
          plt.figure(figsize=(14, 5))
          librosa.display.specshow(mfccs, sr=sr, x_axis='time', y_axis='mel', fmax=8000)
          plt.title('MFCC')
          plt.colorbar()
          plt.show()
      return mfccs
  \<close>
\<close>

definition extract_MFCCs ::
    "'c librosa \<Rightarrow> waveform \<Rightarrow> int \<Rightarrow> int \<Rightarrow> int \<Rightarrow> int \<Rightarrow> bool
      \<Rightarrow> event list \<times> (py_error + matrix)" where
  "extract_MFCCs L y sr n_fft hop_length n_mfcc show_plt =
     (case mfcc L y sr n_mfcc n_fft hop_length of
        Inl e \<Rightarrow> ([], Inl e)
      | Inr mfccs \<Rightarrow>
          (if show_plt then
             (case show_figure L mfccs sr ''mel'' (Some 8000) ''MFCC'' None of
                (shown, Inl e) \<Rightarrow> (shown, Inl e)
              | (shown, Inr _) \<Rightarrow> (shown, Inr mfccs))
           else ([], Inr mfccs)))"

text \<open>
  \<^verbatim>\<open>
  def extract_stft_spectrogram(y, sr, hop_length, show_plt: bool, n_fft=2048):
      stft = librosa.stft(y, n_fft=n_fft, hop_length=hop_length)
      spect = np.abs(stft)
      spect = librosa.amplitude_to_db(spect, ref=np.max)
      if show_plt:
          plt.figure(figsize=(14, 5))
          librosa.display.specshow(spect, sr=sr, x_axis='time', y_axis='log')
          plt.title('Spectrogram')
          plt.colorbar(format='%+2.0f dB')
          plt.show()
      return spect
  \<close>
\<close>

definition extract_stft_spectrogram ::
    "'c librosa \<Rightarrow> waveform \<Rightarrow> int \<Rightarrow> int \<Rightarrow> bool \<Rightarrow> int
      \<Rightarrow> event list \<times> (py_error + matrix)" where
  "extract_stft_spectrogram L y sr hop_length show_plt n_fft =
     (case stft L y n_fft hop_length of
        Inl e \<Rightarrow> ([], Inl e)
      | Inr s \<Rightarrow>
          (case amplitude_to_db L (np_abs L s) of
             Inl e \<Rightarrow> ([], Inl e)
           | Inr spect \<Rightarrow>
               (if show_plt then
                  (case show_figure L spect sr ''log'' None ''Spectrogram''
                          (Some ''%+2.0f dB'') of
                     (shown, Inl e) \<Rightarrow> (shown, Inl e)
                   | (shown, Inr _) \<Rightarrow> (shown, Inr spect))
                else ([], Inr spect))))"

text \<open>
  \<^verbatim>\<open>
  def extract_mel_spectrogram(y, sr, hop_length, show_plt, n_fft=2048, n_mels=128):
      mel_spect = librosa.feature.melspectrogram(y=y, sr=sr, n_fft=n_fft,
                                                 hop_length=hop_length, n_mels=n_mels)
      mel_spect = librosa.power_to_db(mel_spect, ref=np.max)
      if show_plt:
          plt.figure(figsize=(14, 5))
          librosa.display.specshow(mel_spect, sr=sr, y_axis='mel', fmax=8000, x_axis='time')
          plt.title('Mel Spectrogram')
          plt.colorbar(format='%+2.0f dB')
          plt.show()
      return mel_spect
  \<close>
\<close>

definition extract_mel_spectrogram ::
    "'c librosa \<Rightarrow> waveform \<Rightarrow> int \<Rightarrow> int \<Rightarrow> bool \<Rightarrow> int \<Rightarrow> int
      \<Rightarrow> event list \<times> (py_error + matrix)" where
  "extract_mel_spectrogram L y sr hop_length show_plt n_fft n_mels =
     (case melspectrogram L y sr n_fft hop_length n_mels of
        Inl e \<Rightarrow> ([], Inl e)
      | Inr m \<Rightarrow>
          (case power_to_db L m of
             Inl e \<Rightarrow> ([], Inl e)
           | Inr mel_spect \<Rightarrow>
               (if show_plt then
                  (case show_figure L mel_spect sr ''mel'' (Some 8000) ''Mel Spectrogram''
                          (Some ''%+2.0f dB'') of
                     (shown, Inl e) \<Rightarrow> (shown, Inl e)
                   | (shown, Inr _) \<Rightarrow> (shown, Inr mel_spect))
                else ([], Inr mel_spect))))"

text \<open>
  \<^verbatim>\<open>
  def extract_chroma_stft(y, sr, hop_length=2048, n_fft=2048, n_chroma=128):
      stft = np.abs(librosa.stft(y, n_fft=n_fft, hop_length=hop_length))**2
      chroma_stft = librosa.feature.chroma_stft(S=stft, n_chroma=n_chroma, sr=sr)
      return chroma_stft

  def extract_spectral_contrast(y, sr, hop_length=2048, n_fft=2048):
      stft = np.abs(librosa.stft(y, n_fft=n_fft, hop_length=hop_length))
      spec_contr = librosa.feature.spectral_contrast(S=stft, sr=sr)
      return spec_contr
  \<close>
  These two take no \<open>show_plt\<close> and plot nothing.
\<close>

definition extract_chroma_stft ::
    "'c librosa \<Rightarrow> waveform \<Rightarrow> int \<Rightarrow> int \<Rightarrow> int \<Rightarrow> int
      \<Rightarrow> event list \<times> (py_error + matrix)" where
  "extract_chroma_stft L y sr hop_length n_fft n_chroma =
     (case stft L y n_fft hop_length of
        Inl e \<Rightarrow> ([], Inl e)
      | Inr s \<Rightarrow> ([], chroma_stft L (np_square L (np_abs L s)) n_chroma sr))"

definition extract_spectral_contrast ::
    "'c librosa \<Rightarrow> waveform \<Rightarrow> int \<Rightarrow> int \<Rightarrow> int
      \<Rightarrow> event list \<times> (py_error + matrix)" where
  "extract_spectral_contrast L y sr hop_length n_fft =
     (case stft L y n_fft hop_length of
        Inl e \<Rightarrow> ([], Inl e)
      | Inr s \<Rightarrow> ([], spectral_contrast L (np_abs L s) sr))"


section \<open>Extract all features\<close>

text \<open>
  \<^verbatim>\<open>
  def extract_features(samples, feature="Mel", sr=16000, hop_length=2048, n_fft=2048,
                       n_mels=128, n_chroma=128, n_mfcc=128,
                       show_logs=False, show_plt=False) -> np.ndarray:
      features_length = len(samples)
      features = []
      for i, data in enumerate(samples):
          if feature == "Stft":
              spect = extract_stft_spectrogram(y=data, sr=sr, hop_length=hop_length,
                                               show_plt=show_plt, n_fft=n_fft)
          elif feature == "Mel":
              spect = extract_mel_spectrogram(y=data, sr=sr, hop_length=hop_length,
                                              show_plt=show_plt, n_fft=n_fft, n_mels=n_mels)
          elif feature == "MFCC":
              spect = extract_MFCCs(y=data, sr=sr, show_plt=show_plt, n_mfcc=n_mfcc,
                                    hop_length=hop_length, n_fft=n_fft)
          elif feature == "ChromaStft":
              spect = extract_chroma_stft(y=data, sr=sr, hop_length=hop_length,
                                          n_fft=n_fft, n_chroma=n_chroma)
          elif feature == "SpectralContrast":
              spect = extract_spectral_contrast(y=data, sr=sr, hop_length=hop_length,
                                                n_fft=n_fft)
          features.append(spect)
          if show_logs and i % 50 == 0:
              logging.info(f"Extracted {i}/{features_length} features.")
      features = np.array(features)
      if show_logs:
          logging.info(f"Extracted features from {features_length} audio files.")
          logging.info(f"Features shape: {features.shape}")
      return features
  \<close>

  \<open>spect\<close> is a local variable of the function, unbound until a branch of the chain
  assigns it; the chain has no final \<open>else\<close>. The model keeps the binding as an option:
  \<open>assign_spect\<close> is the \<open>if\<close>/\<open>elif\<close> chain, returning the binding after it.
\<close>

definition bound ::
    "event list \<times> (py_error + matrix) \<Rightarrow> event list \<times> (py_error + matrix option)" where
  "bound r = (case r of (ev, Inl e) \<Rightarrow> (ev, Inl e) | (ev, Inr m) \<Rightarrow> (ev, Inr (Some m)))"

definition assign_spect ::
    "'c librosa \<Rightarrow> string \<Rightarrow> int \<Rightarrow> int \<Rightarrow> int \<Rightarrow> int \<Rightarrow> int \<Rightarrow> int \<Rightarrow> bool
      \<Rightarrow> waveform \<Rightarrow> matrix option \<Rightarrow> event list \<times> (py_error + matrix option)" where
  "assign_spect L feature sr hop_length n_fft n_mels n_chroma n_mfcc show_plt data spect =
     (if feature = ''Stft'' then
        bound (extract_stft_spectrogram L data sr hop_length show_plt n_fft)
      else if feature = ''Mel'' then
        bound (extract_mel_spectrogram L data sr hop_length show_plt n_fft n_mels)
      else if feature = ''MFCC'' then
        bound (extract_MFCCs L data sr n_fft hop_length n_mfcc show_plt)
      else if feature = ''ChromaStft'' then
        bound (extract_chroma_stft L data sr hop_length n_fft n_chroma)
      else if feature = ''SpectralContrast'' then
        bound (extract_spectral_contrast L data sr hop_length n_fft)
      else ([], Inr spect))"

text \<open>
  The \<open>for\<close> loop, from item \<open>i\<close> on: the samples still to process, the binding of
  \<open>spect\<close> and the list \<open>features\<close> built so far. Reading the unbound \<open>spect\<close> in
  \<open>features.append(spect)\<close> raises \<open>UnboundLocalError\<close>. An exception ends the loop and
  the function; the events up to it stay.
\<close>

fun extract_loop ::
    "'c librosa \<Rightarrow> string \<Rightarrow> int \<Rightarrow> int \<Rightarrow> int \<Rightarrow> int \<Rightarrow> int \<Rightarrow> int \<Rightarrow> bool \<Rightarrow> bool
      \<Rightarrow> nat \<Rightarrow> nat \<Rightarrow> waveform list \<Rightarrow> matrix option \<Rightarrow> matrix list
      \<Rightarrow> event list \<times> (py_error + matrix list)" where
  "extract_loop L feature sr hop_length n_fft n_mels n_chroma n_mfcc show_logs show_plt
      features_length i [] spect features = ([], Inr features)"
| "extract_loop L feature sr hop_length n_fft n_mels n_chroma n_mfcc show_logs show_plt
      features_length i (data # rest) spect features =
     (case assign_spect L feature sr hop_length n_fft n_mels n_chroma n_mfcc show_plt
             data spect of
        (ev, Inl e) \<Rightarrow> (ev, Inl e)
      | (ev, Inr None) \<Rightarrow> (ev, Inl UnboundLocalError)
      | (ev, Inr (Some m)) \<Rightarrow>
          (let logged = (if show_logs \<and> i mod 50 = 0
                         then [LogExtracted i features_length] else []);
               (ev', r) = extract_loop L feature sr hop_length n_fft n_mels n_chroma n_mfcc
                            show_logs show_plt features_length (Suc i) rest (Some m)
                            (features @ [m])
           in (ev @ logged @ ev', r)))"

definition extract_features ::
    "'c librosa \<Rightarrow> waveform list \<Rightarrow> string \<Rightarrow> int \<Rightarrow> int \<Rightarrow> int \<Rightarrow> int \<Rightarrow> int \<Rightarrow> int
      \<Rightarrow> bool \<Rightarrow> bool \<Rightarrow> event list \<times> (py_error + batch)" where
  "extract_features L samples feature sr hop_length n_fft n_mels n_chroma n_mfcc
      show_logs show_plt =
     (let features_length = length samples in
      case extract_loop L feature sr hop_length n_fft n_mels n_chroma n_mfcc
             show_logs show_plt features_length 0 samples None [] of
        (ev, Inl e) \<Rightarrow> (ev, Inl e)
      | (ev, Inr features) \<Rightarrow>
          (case np_array features of
             Inl e \<Rightarrow> (ev, Inl e)
           | Inr arr \<Rightarrow>
               (ev @ (if show_logs
                      then [LogExtractedFrom features_length, LogFeaturesShape (bshape arr)]
                      else []),
                Inr arr)))"

text \<open>
  The closed set of extractor tags, and the single-item extractor a tag names, called with
  the shared parameters as \<open>extract_features\<close> passes them. Outside the tag set no
  extractor is named.
\<close>

definition recognized_tags :: "string set" where
  "recognized_tags = {''Stft'', ''Mel'', ''MFCC'', ''ChromaStft'', ''SpectralContrast''}"

definition single_item_extractor ::
    "'c librosa \<Rightarrow> string \<Rightarrow> int \<Rightarrow> int \<Rightarrow> int \<Rightarrow> int \<Rightarrow> int \<Rightarrow> int \<Rightarrow> bool
      \<Rightarrow> waveform \<Rightarrow> (py_error + matrix) option" where
  "single_item_extractor L feature sr hop_length n_fft n_mels n_chroma n_mfcc show_plt y =
     (if feature = ''Stft'' then
        Some (snd (extract_stft_spectrogram L y sr hop_length show_plt n_fft))
      else if feature = ''Mel'' then
        Some (snd (extract_mel_spectrogram L y sr hop_length show_plt n_fft n_mels))
      else if feature = ''MFCC'' then
        Some (snd (extract_MFCCs L y sr n_fft hop_length n_mfcc show_plt))
      else if feature = ''ChromaStft'' then
        Some (snd (extract_chroma_stft L y sr hop_length n_fft n_chroma))
      else if feature = ''SpectralContrast'' then
        Some (snd (extract_spectral_contrast L y sr hop_length n_fft))
      else None)"

text \<open>
  A stand-in for the audio library, to evaluate the results at concrete inputs: every
  transform returns an all-zero matrix of the shape librosa documents for it (centred
  frames, \<open>1 + (len(y) + 2 * (n_fft // 2) - n_fft) // hop_length\<close> columns;
  \<open>1 + n_fft // 2\<close> frequency rows; seven contrast bands) and refuses an empty waveform and
  a window or hop that is not positive. Its plotting calls always return.
\<close>

definition zeros :: "nat \<Rightarrow> nat \<Rightarrow> matrix" where
  "zeros r c = Matrix (r, c) (replicate (r * c) 0)"

definition silent_frames ::
    "waveform \<Rightarrow> int \<Rightarrow> int \<Rightarrow> nat \<Rightarrow> py_error + matrix" where
  "silent_frames y n_fft hop_length rows =
     (if y = [] \<or> n_fft \<le> 0 \<or> hop_length \<le> 0 then Inl (LibraryError ''ParameterError'')
      else Inr (zeros rows
                  (nat (1 + (int (length y) + 2 * (n_fft div 2) - n_fft) div hop_length))))"

definition silent_librosa :: "matrix librosa" where
  "silent_librosa =
     \<lparr> stft = (\<lambda>y n_fft hop_length. silent_frames y n_fft hop_length (nat (1 + n_fft div 2))),
       np_abs = (\<lambda>s. s),
       np_square = (\<lambda>s. s),
       amplitude_to_db = Inr,
       power_to_db = Inr,
       melspectrogram = (\<lambda>y sr n_fft hop_length n_mels.
                           silent_frames y n_fft hop_length (nat n_mels)),
       mfcc = (\<lambda>y sr n_mfcc n_fft hop_length. silent_frames y n_fft hop_length (nat n_mfcc)),
       chroma_stft = (\<lambda>S n_chroma sr. Inr (zeros (nat n_chroma) (snd (mshape S)))),
       spectral_contrast = (\<lambda>S sr. Inr (zeros 7 (snd (mshape S)))),
       plt_figure = None,
       specshow = (\<lambda>data sr x_axis y_axis fmax. None),
       plt_title = (\<lambda>title. None),
       plt_colorbar = (\<lambda>colorbar_format. None),
       plt_show = None \<rparr>"



section \<open>Onehot encode\<close>

text \<open>
  \<open>np.array(labels).reshape(-1, 1)\<close> turns the labels into a single column of one NumPy
  dtype, which is what the encoder sees. The conversion is a parameter \<open>np_column\<close>: it
  gives the elements of the column, in order, or the exception NumPy raises. It need not
  keep the labels as they are: NumPy converts all of them to one common type.

  scikit-learn's \<open>OneHotEncoder()\<close> with its default settings, on that column: fitting
  refuses a column without samples (\<open>ValueError\<close>: found array with 0 samples while a
  minimum of 1 is required) and otherwise stores as \<open>categories_[0]\<close> the distinct values
  of the column in sorted order. Transforming gives every sample the row holding 1.0 in the
  column of its category and 0.0 elsewhere.
\<close>

definition encoder_fit :: "'b::linorder list \<Rightarrow> py_error + 'b list" where
  "encoder_fit column = (if column = [] then Inl ValueError else Inr (sort (remdups column)))"

definition encoder_transform :: "'b list \<Rightarrow> 'b list \<Rightarrow> real list list" where
  "encoder_transform categories column =
     map (\<lambda>v. map (\<lambda>c. if c = v then 1 else 0) categories) column"

text \<open>
  \<^verbatim>\<open>
  def onehot_encode(labels: np.ndarray) -> (np.ndarray, dict):
      encoder = OneHotEncoder()
      labels = np.array(labels).reshape(-1, 1)
      labels_onehot = encoder.fit_transform(labels)
      labels_onehot = labels_onehot.astype(float)
      labels_onehot = labels_onehot.toarray()
      original_classes = encoder.categories_[0]
      mapping = {col_idx: class_label for col_idx, class_label in enumerate(original_classes)}
      return labels_onehot, mapping
  \<close>
  The matrix is the list of its rows; the dictionary is a map from column index to the
  category, an element of the column. The function's \<open>print\<close> calls are left out.
\<close>

definition onehot_encode ::
    "('a list \<Rightarrow> py_error + 'b::linorder list) \<Rightarrow> 'a list
      \<Rightarrow> py_error + real list list \<times> (nat \<rightharpoonup> 'b)" where
  "onehot_encode np_column labels =
     (case np_column labels of
        Inl e \<Rightarrow> Inl e
      | Inr column \<Rightarrow>
          (case encoder_fit column of
             Inl e \<Rightarrow> Inl e
           | Inr original_classes \<Rightarrow>
               (let labels_onehot = encoder_transform original_classes column;
                    mapping = map_of (enumerate 0 original_classes)
                in Inr (labels_onehot, mapping))))"

text \<open>
  Reading an encoded matrix back, as the specification describes it: a row is one-hot when
  its only non-zero entry is a single 1; it decodes to the label that the mapping gives for
  the column holding the 1.
\<close>

definition one_hot :: "real list \<Rightarrow> bool" where
  "one_hot row = (filter (\<lambda>x. x \<noteq> 0) row = [1])"

definition column_of_one :: "real list \<Rightarrow> nat option" where
  "column_of_one row = map_option fst (find (\<lambda>(j, x). x = 1) (enumerate 0 row))"

definition decode_row :: "(nat \<rightharpoonup> 'b) \<Rightarrow> real list \<Rightarrow> 'b option" where
  "decode_row mapping row =
     (case column_of_one row of None \<Rightarrow> None | Some j \<Rightarrow> mapping j)"

text \<open>
  \<open>np.array\<close> on a list of Python integers, each element read as the number it holds.
  NumPy takes \<open>int64\<close> when every label fits it and \<open>uint64\<close> when every label lies in
  \<open>[2^63, 2^64)\<close>; both keep the labels. Labels that need \<open>int64\<close> and \<open>uint64\<close>
  together are promoted to \<open>float64\<close>, each rounded to the nearest double (ties to even),
  which merges neighbouring large labels. A label beyond both ranges makes an array of
  Python objects, which keeps the labels.
\<close>

fun bit_length :: "nat \<Rightarrow> nat" where
  "bit_length n = (if n = 0 then 0 else Suc (bit_length (n div 2)))"

declare bit_length.simps [simp del]

definition float64_of_int :: "int \<Rightarrow> int" where
  "float64_of_int n =
     (let a = nat \<bar>n\<bar>;
          e = bit_length a - 53;
          q = a div 2 ^ e;
          r = a mod 2 ^ e;
          rounded = (if 2 ^ e < 2 * r \<or> (2 * r = 2 ^ e \<and> odd q) then q + 1 else q)
      in sgn n * int (rounded * 2 ^ e))"

definition np_array_of_ints :: "int list \<Rightarrow> py_error + int list" where
  "np_array_of_ints labels =
     (if list_all (\<lambda>x. - (2 ^ 63) \<le> x \<and> x < 2 ^ 63) labels then Inr labels
      else if list_all (\<lambda>x. 2 ^ 63 \<le> x \<and> x < 2 ^ 64) labels then Inr labels
      else if list_all (\<lambda>x. - (2 ^ 63) \<le> x \<and> x < 2 ^ 64) labels
        then Inr (map float64_of_int labels)
      else Inr labels)"

section \<open>Create model\<close>

text \<open>
  A Keras \<open>Sequential\<close> model as the list of layer descriptions it is built from. Every
  layer carries the arguments the notebook passes; an argument the notebook leaves out has
  the Keras default (\<open>strides=(1, 1)\<close>, no activation, no regularizer, no input shape).
  \<open>LeakyReLU\<close> occurs in the source both as a layer of its own and as the \<open>activation\<close>
  argument of another layer.
\<close>

datatype activation = LeakyReLU_activation real | Named string

datatype regularizer = L2 real

datatype layer =
    is_Conv2D: Conv2D (filters: int) (kernel_size: "int \<times> int") (strides: "int \<times> int")
      (padding: string) (activation: "activation option")
      (kernel_regularizer: "regularizer option") (input_shape: "(int \<times> int \<times> int) option")
  | is_Dropout: Dropout real
  | is_Flatten: Flatten
  | is_Dense: Dense (units: int) (activation: "activation option")
      (kernel_regularizer: "regularizer option")
  | is_BatchNormalization: BatchNormalization
  | is_LeakyReLU: LeakyReLU real

text \<open>
  \<^verbatim>\<open>
  def create_better_base_cnn_model(feature_width, feature_height, channels, classes):
      model = Sequential([
          Conv2D(64, (3, 3), input_shape=(feature_width, feature_height, channels),
                 padding="same", activation=LeakyReLU(alpha=0.1),
                 kernel_regularizer=tf.keras.regularizers.l2(0.01)),
          Conv2D(64, (3, 3), strides=(4, 4), padding="same", activation=LeakyReLU(alpha=0.1),
                 kernel_regularizer=tf.keras.regularizers.l2(0.01)),
          Dropout(0.3),
          Conv2D(64, (3, 3), padding='same', activation=LeakyReLU(alpha=0.1),
                 kernel_regularizer=tf.keras.regularizers.l2(0.01)),
          Conv2D(64, (3, 3), strides=(4, 4), padding='same', activation=LeakyReLU(alpha=0.1),
                 kernel_regularizer=tf.keras.regularizers.l2(0.01)),
          Dropout(0.4),
          Flatten(),
          Dense(512, kernel_regularizer=tf.keras.regularizers.l2(0.01)),
          BatchNormalization(),
          LeakyReLU(alpha=0.1),
          Dropout(0.3),
          Dense(256, kernel_regularizer=tf.keras.regularizers.l2(0.01)),
          BatchNormalization(),
          LeakyReLU(alpha=0.1),
          Dropout(0.3),
          Dense(classes, activation='softmax'),
      ])
      model.summary()
      return model
  \<close>
  The model is the layer list handed to \<open>Sequential\<close>; whether Keras accepts the
  dimensions, and the printed summary, are outside it.
\<close>

definition create_better_base_cnn_model :: "int \<Rightarrow> int \<Rightarrow> int \<Rightarrow> int \<Rightarrow> layer list" where
  "create_better_base_cnn_model feature_width feature_height channels classes =
     [ Conv2D 64 (3, 3) (1, 1) ''same'' (Some (LeakyReLU_activation 0.1)) (Some (L2 0.01))
         (Some (feature_width, feature_height, channels)),
       Conv2D 64 (3, 3) (4, 4) ''same'' (Some (LeakyReLU_activation 0.1)) (Some (L2 0.01)) None,
       Dropout 0.3,
       Conv2D 64 (3, 3) (1, 1) ''same'' (Some (LeakyReLU_activation 0.1)) (Some (L2 0.01)) None,
       Conv2D 64 (3, 3) (4, 4) ''same'' (Some (LeakyReLU_activation 0.1)) (Some (L2 0.01)) None,
       Dropout 0.4,
       Flatten,
       Dense 512 None (Some (L2 0.01)),
       BatchNormalization,
       LeakyReLU 0.1,
       Dropout 0.3,
       Dense 256 None (Some (L2 0.01)),
       BatchNormalization,
       LeakyReLU 0.1,
       Dropout 0.3,
       Dense classes (Some (Named ''softmax'')) None ]"

section \<open>Model evaluation\<close>

text \<open>
  scikit-learn's \<open>classification_report(y_true, y_pred, zero_division=z)\<close>, by its
  documented definition, for one-dimensional label arrays: one row per label occurring in
  either array, in sorted order, with
  precision = tp / (number of predictions of the label),
  recall = tp / (number of true instances of the label),
  F1 = 2 tp / (true instances + predictions), and the support. A ratio whose denominator is
  zero is given the value \<open>z\<close>. The rows are what is modelled; the three summary rows
  aggregated from them and the text layout are left out, and \<open>real\<close> stands for the
  floating-point ratios. What the library checks of the two arrays before it computes
  (equal lengths, a supported target type) is the parameter \<open>validate\<close>.
\<close>

record 'l report_row =
  label :: 'l
  precision :: real
  recall :: real
  f1_score :: real
  support :: nat

definition prf_divide :: "nat \<Rightarrow> nat \<Rightarrow> real \<Rightarrow> real" where
  "prf_divide numerator denominator zero_division =
     (if denominator = 0 then zero_division else real numerator / real denominator)"

definition tp_sum :: "'l list \<Rightarrow> 'l list \<Rightarrow> 'l \<Rightarrow> nat" where
  "tp_sum y_true y_pred c = length (filter (\<lambda>(t, p). t = c \<and> p = c) (zip y_true y_pred))"

definition unique_labels :: "'l::linorder list \<Rightarrow> 'l list \<Rightarrow> 'l list" where
  "unique_labels y_true y_pred = sort (remdups (y_true @ y_pred))"

definition report_for :: "'l list \<Rightarrow> 'l list \<Rightarrow> real \<Rightarrow> 'l \<Rightarrow> 'l report_row" where
  "report_for y_true y_pred zero_division c =
     (let tp = tp_sum y_true y_pred c;
          pred_sum = count_list y_pred c;
          true_sum = count_list y_true c
      in \<lparr> label = c,
           precision = prf_divide tp pred_sum zero_division,
           recall = prf_divide tp true_sum zero_division,
           f1_score = prf_divide (2 * tp) (true_sum + pred_sum) zero_division,
           support = true_sum \<rparr>)"

definition classification_report ::
    "('l::linorder list \<Rightarrow> 'l list \<Rightarrow> py_error option) \<Rightarrow> 'l list \<Rightarrow> 'l list \<Rightarrow> real
      \<Rightarrow> py_error + 'l report_row list" where
  "classification_report validate y_true y_pred zero_division =
     (case validate y_true y_pred of
        Some e \<Rightarrow> Inl e
      | None \<Rightarrow> Inr (map (report_for y_true y_pred zero_division)
                       (unique_labels y_true y_pred)))"

text \<open>
  The other library calls of \<open>evaluate_model\<close>, as parameters: the three metrics, NumPy's
  \<open>linspace\<close>, the spline of \<open>make_interp_spline(x, y)\<close> evaluated on a grid (arguments
  \<open>x y grid\<close>), Python's float formatting with \<open>:.1f\<close> and \<open>:.2f\<close>, and the
  writing of the figure file by \<open>plt.savefig\<close>, which gives the exception if the file
  cannot be written.
\<close>

record 'l toolkit =
  validate_targets :: "'l list \<Rightarrow> 'l list \<Rightarrow> py_error option"
  confusion_matrix :: "'l list \<Rightarrow> 'l list \<Rightarrow> py_error + nat list list"
  cohen_kappa_score :: "'l list \<Rightarrow> 'l list \<Rightarrow> py_error + real"
  accuracy_score :: "'l list \<Rightarrow> 'l list \<Rightarrow> py_error + real"
  linspace :: "real \<Rightarrow> real \<Rightarrow> nat \<Rightarrow> real list"
  interp_spline :: "real list \<Rightarrow> real list \<Rightarrow> real list \<Rightarrow> py_error + real list"
  format_1f :: "real \<Rightarrow> string"
  format_2f :: "real \<Rightarrow> string"
  savefig :: "string \<Rightarrow> py_error option"

text \<open>
  What \<open>evaluate_model\<close> prints, draws and writes, in order. \<open>PrintShape\<close> is the line
  with the type and shape of one label array, \<open>PrintKappa\<close> and \<open>PrintAccuracy\<close> carry the
  formatted percentage, \<open>PrintSaving\<close> the file name announced, \<open>Plot\<close> one curve (legend
  label, x and y values) and \<open>Savefig\<close> the name of the file the figure is written to.
\<close>

datatype 'l emitted =
    Info string
  | PrintShape string nat
  | PrintConfusionMatrix "nat list list"
  | ConfusionMatrixDisplay "nat list list"
  | PrintReport "'l report_row list"
  | PrintKappa string
  | PrintAccuracy string
  | Plot string "real list" "real list"
  | PrintSaving string
  | Savefig string
  | Show

text \<open>
  A computation leaves its output and ends in an exception or a value. \<open>andthen\<close> is
  sequencing: an exception ends the run, the output so far stays.
\<close>

type_synonym ('l, 'a) run = "'l emitted list \<times> (py_error + 'a)"

definition andthen :: "('l, 'a) run \<Rightarrow> ('a \<Rightarrow> ('l, 'b) run) \<Rightarrow> ('l, 'b) run" where
  "andthen m f =
     (case m of
        (out, Inl e) \<Rightarrow> (out, Inl e)
      | (out, Inr a) \<Rightarrow> (case f a of (out', r) \<Rightarrow> (out @ out', r)))"

definition call :: "py_error + 'a \<Rightarrow> ('l, 'a) run" where
  "call r = ([], r)"

definition say :: "'l emitted \<Rightarrow> ('l, unit) run" where
  "say x = ([x], Inr ())"

definition skip :: "('l, unit) run" where
  "skip = ([], Inr ())"

text \<open>
  \<^verbatim>\<open>
  def return_interpolated_plot(y, x, X_):
      X_Y_Spline = make_interp_spline(x, y)
      Y_ = X_Y_Spline(X_)
      return Y_
  \<close>
\<close>

definition return_interpolated_plot ::
    "'l toolkit \<Rightarrow> real list \<Rightarrow> real list \<Rightarrow> real list \<Rightarrow> py_error + real list" where
  "return_interpolated_plot L y x X' = interp_spline L x y X'"

text \<open>
  The NumPy and matplotlib operations that \<open>evaluate_model\<close> applies to its own data:
  \<open>np.arange(0, n)\<close>, the \<open>.min()\<close> and \<open>.max()\<close> of an array (\<open>ValueError\<close> on an
  empty one), the slice \<open>values[:n]\<close>, and \<open>ax.plot(x, y, label=...)\<close>, which refuses
  \<open>x\<close> and \<open>y\<close> of different lengths with \<open>ValueError\<close>.
\<close>

type_synonym history = "string \<rightharpoonup> real list"

definition arange :: "int \<Rightarrow> real list" where
  "arange n = map real [0..<nat n]"

definition array_min :: "real list \<Rightarrow> py_error + real" where
  "array_min xs = (if xs = [] then Inl ValueError else Inr (Min (set xs)))"

definition array_max :: "real list \<Rightarrow> py_error + real" where
  "array_max xs = (if xs = [] then Inl ValueError else Inr (Max (set xs)))"

definition slice_to :: "int \<Rightarrow> 'a list \<Rightarrow> 'a list" where
  "slice_to n xs = (if 0 \<le> n then take (nat n) xs else take (length xs - nat (- n)) xs)"

definition plot :: "string \<Rightarrow> real list \<Rightarrow> real list \<Rightarrow> ('l, unit) run" where
  "plot legend x y = (if length x = length y then say (Plot legend x y) else call (Inl ValueError))"

text \<open>
  One curve of the figure, as each of the four \<open>plot\<close> statements draws it:
  \<^verbatim>\<open>
  if interpolate:
      ax.plot(X_, return_interpolated_plot(H.history[key][:n_of_epochs], epochs_x, X_),
              label=legend)
  else:
      ax.plot(epochs_x, H.history[key][:n_of_epochs], label=legend)
  \<close>
  A key missing from \<open>H.history\<close> raises \<open>KeyError\<close>.
\<close>

definition curve ::
    "'l toolkit \<Rightarrow> history \<Rightarrow> bool \<Rightarrow> int \<Rightarrow> real list \<Rightarrow> real list \<Rightarrow> string \<Rightarrow> string
      \<Rightarrow> ('l, unit) run" where
  "curve L history interpolate n_of_epochs epochs_x X' key legend =
     (case history key of
        None \<Rightarrow> call (Inl (KeyError key))
      | Some values \<Rightarrow>
          (if interpolate then
             andthen (call (return_interpolated_plot L (slice_to n_of_epochs values) epochs_x X'))
               (\<lambda>Y'. plot legend X' Y')
           else plot legend epochs_x (slice_to n_of_epochs values)))"

text \<open>
  The block under \<open>if H is not None:\<close>.
  \<^verbatim>\<open>
  epochs_x = np.arange(0, n_of_epochs)
  X_ = np.linspace(epochs_x.min(), epochs_x.max(), 250)
  ... the four curves: loss, val_loss, accuracy, val_accuracy ...
  print(f"[INFO] Saving training/validation plot as a "
        f"{plot_file_name}-{accuracy_score(y_test, y_pred)*100:.2f}acc.png")
  plt.savefig(f"{plot_file_name}-{accuracy_score(y_test, y_pred)*100:.1f}acc.png")
  plt.show()
  \<close>
\<close>

definition plot_history ::
    "'l toolkit \<Rightarrow> history \<Rightarrow> 'l list \<Rightarrow> 'l list \<Rightarrow> int \<Rightarrow> bool \<Rightarrow> string
      \<Rightarrow> ('l, unit) run" where
  "plot_history L history y_pred y_test n_of_epochs interpolate plot_file_name =
     (let epochs_x = arange n_of_epochs in
      andthen (call (array_min epochs_x)) (\<lambda>lo.
      andthen (call (array_max epochs_x)) (\<lambda>hi.
        (let X' = linspace L lo hi 250 in
         andthen (curve L history interpolate n_of_epochs epochs_x X' ''loss'' ''train_loss'') (\<lambda>_.
         andthen (curve L history interpolate n_of_epochs epochs_x X' ''val_loss'' ''val_loss'') (\<lambda>_.
         andthen (curve L history interpolate n_of_epochs epochs_x X' ''accuracy'' ''train_acc'') (\<lambda>_.
         andthen (curve L history interpolate n_of_epochs epochs_x X' ''val_accuracy'' ''val_acc'') (\<lambda>_.
         andthen (call (accuracy_score L y_test y_pred)) (\<lambda>shown.
         andthen (say (PrintSaving (plot_file_name @ ''-'' @ format_2f L (shown * 100) @ ''acc.png''))) (\<lambda>_.
         andthen (call (accuracy_score L y_test y_pred)) (\<lambda>acc.
           (let file = plot_file_name @ ''-'' @ format_1f L (acc * 100) @ ''acc.png'' in
            case savefig L file of
              Some e \<Rightarrow> call (Inl e)
            | None \<Rightarrow> andthen (say (Savefig file)) (\<lambda>_. say Show)))))))))))))"

text \<open>
  \<^verbatim>\<open>
  def evaluate_model(H, y_pred, y_test, n_of_epochs, show_confusion_matrix=True,
                     interpolate=True, plot_file_name="plot.png"):
      print("[INFO] Evaluating model...")
      print(f'Type and shape of y_test: {type(y_test)} | {y_test.shape}')
      print(f'Type and shape of y_pred: {type(y_pred)} | {y_pred.shape}')
      print('\nConfusion matrix:')
      print(confusion_matrix(y_test, y_pred))
      conf_matrix = confusion_matrix(y_test, y_pred)
      if show_confusion_matrix:
          disp = ConfusionMatrixDisplay(conf_matrix) ... disp.plot(ax=ax)
      print(classification_report(y_test, y_pred, zero_division=1))
      print(f"Cohen's Kappa: {cohen_kappa_score(y_test, y_pred)*100:.1f}%")
      print(f"Accuracy: {accuracy_score(y_test, y_pred)*100:.1f}%")
      if H is not None:
          ...
      print("[INFO] Finished model evaluation")
  \<close>
  \<open>H\<close> is \<open>None\<close> or the history dictionary of a training run; the label arrays are
  one-dimensional.
\<close>

definition evaluate_model ::
    "'l::linorder toolkit \<Rightarrow> history option \<Rightarrow> 'l list \<Rightarrow> 'l list \<Rightarrow> int \<Rightarrow> bool \<Rightarrow> bool
      \<Rightarrow> string \<Rightarrow> ('l, unit) run" where
  "evaluate_model L H y_pred y_test n_of_epochs show_confusion_matrix interpolate plot_file_name =
     andthen (say (Info ''[INFO] Evaluating model...'')) (\<lambda>_.
     andthen (say (PrintShape ''y_test'' (length y_test))) (\<lambda>_.
     andthen (say (PrintShape ''y_pred'' (length y_pred))) (\<lambda>_.
     andthen (say (Info ''Confusion matrix:'')) (\<lambda>_.
     andthen (call (confusion_matrix L y_test y_pred)) (\<lambda>printed.
     andthen (say (PrintConfusionMatrix printed)) (\<lambda>_.
     andthen (call (confusion_matrix L y_test y_pred)) (\<lambda>conf_matrix.
     andthen (if show_confusion_matrix then say (ConfusionMatrixDisplay conf_matrix) else skip) (\<lambda>_.
     andthen (call (classification_report (validate_targets L) y_test y_pred 1)) (\<lambda>report.
     andthen (say (PrintReport report)) (\<lambda>_.
     andthen (call (cohen_kappa_score L y_test y_pred)) (\<lambda>kappa.
     andthen (say (PrintKappa (format_1f L (kappa * 100)))) (\<lambda>_.
     andthen (call (accuracy_score L y_test y_pred)) (\<lambda>accuracy.
     andthen (say (PrintAccuracy (format_1f L (accuracy * 100)))) (\<lambda>_.
     andthen (case H of None \<Rightarrow> skip
              | Some history \<Rightarrow>
                  plot_history L history y_pred y_test n_of_epochs interpolate plot_file_name) (\<lambda>_.
     say (Info ''[INFO] Finished model evaluation''))))))))))))))))"

text \<open>The names of the files written, read off an output.\<close>

fun saved :: "'l emitted \<Rightarrow> string option" where
  "saved (Savefig file) = Some file"
| "saved _ = None"

definition saved_files :: "'l emitted list \<Rightarrow> string list" where
  "saved_files out = List.map_filter saved out"

text \<open>The classification reports printed, read off an output.\<close>

fun reported :: "'l emitted \<Rightarrow> 'l report_row list option" where
  "reported (PrintReport rows) = Some rows"
| "reported _ = None"

definition printed_reports :: "'l emitted list \<Rightarrow> 'l report_row list list" where
  "printed_reports out = List.map_filter reported out"

text \<open>
  A stand-in for the evaluation toolkit, to evaluate the results at concrete inputs: the
  metrics computed exactly over the rationals, a spline that wants four points, decimal
  formatting that rounds half up, and a file system that accepts every name.
\<close>

fun digits :: "nat \<Rightarrow> string" where
  "digits n =
     (if n < 10 then [''0123456789'' ! n]
      else digits (n div 10) @ [''0123456789'' ! (n mod 10)])"

declare digits.simps [simp del]

definition format_fixed :: "nat \<Rightarrow> real \<Rightarrow> string" where
  "format_fixed d x =
     (let scaled = nat \<lfloor>\<bar>x\<bar> * 10 ^ d + 1 / 2\<rfloor>;
          frac = digits (scaled mod 10 ^ d)
      in (if x < 0 then ''-'' else []) @ digits (scaled div 10 ^ d) @ ''.''
           @ replicate (d - length frac) (CHR ''0'') @ frac)"

definition agreement :: "'l list \<Rightarrow> 'l list \<Rightarrow> real" where
  "agreement y_true y_pred =
     real (length (filter (\<lambda>(t, p). t = p) (zip y_true y_pred))) / real (length y_true)"

definition chance_agreement :: "'l::linorder list \<Rightarrow> 'l list \<Rightarrow> real" where
  "chance_agreement y_true y_pred =
     (\<Sum>c\<leftarrow>unique_labels y_true y_pred.
        real (count_list y_true c) * real (count_list y_pred c))
     / (real (length y_true) * real (length y_true))"

definition plain_toolkit :: "nat toolkit" where
  "plain_toolkit =
     \<lparr> validate_targets = (\<lambda>t p. if length t = length p then None else Some ValueError),
       confusion_matrix = (\<lambda>t p.
         if length t = length p
         then Inr (map (\<lambda>a. map (\<lambda>b. length (filter (\<lambda>(x, y). x = a \<and> y = b) (zip t p)))
                                (unique_labels t p))
                       (unique_labels t p))
         else Inl ValueError),
       cohen_kappa_score = (\<lambda>t p.
         if length t = length p
         then Inr ((agreement t p - chance_agreement t p) / (1 - chance_agreement t p))
         else Inl ValueError),
       accuracy_score = (\<lambda>t p.
         if length t = length p then Inr (agreement t p) else Inl ValueError),
       linspace = (\<lambda>lo hi n. map (\<lambda>k. lo + (hi - lo) * real k / real (n - 1)) [0..<n]),
       interp_spline = (\<lambda>x y grid.
         if length x = length y \<and> 4 \<le> length x then Inr (map (\<lambda>_. 0) grid)
         else Inl ValueError),
       format_1f = format_fixed 1,
       format_2f = format_fixed 2,
       savefig = (\<lambda>file. None) \<rparr>"

text \<open>A training history of two epochs, for the concrete evaluations.\<close>

definition two_epochs :: history where
  "two_epochs = map_of [(''loss'', [0.9, 0.5]), (''val_loss'', [1, 0.7]),
                        (''accuracy'', [0.5, 0.75]), (''val_accuracy'', [0.4, 0.7])]"

section \<open>The dimension calculator: results\<close>

text \<open>
  C2, as amended. For every sample rate, duration, FFT size and hop length with
  \<open>sample_rate * duration \<ge> n_fft\<close> and a hop length other than zero,
  \<open>calculate_spectrogram_dimensions\<close> returns exactly
  \<open>(n_fft // 2 + 1, 1 + (sample_rate * duration - n_fft) // hop_length)\<close>; in particular
  16000 Hz, one second, \<open>n_fft = 2048\<close> and \<open>hop_length = 512\<close> give \<open>(1025, 28)\<close>.
\<close>

theorem calculate_spectrogram_dimensions_closed_form:
  "(n_fft \<le> sr * sample_length \<and> hop_length \<noteq> 0 \<longrightarrow>
      calculate_spectrogram_dimensions sample_length n_fft hop_length sr =
        Inr (n_fft div 2 + 1, 1 + (sr * sample_length - n_fft) div hop_length))
   \<and> calculate_spectrogram_dimensions 1 2048 512 16000 = Inr (1025, 28)"
  by (simp add: calculate_spectrogram_dimensions_def floordiv_def)

theorem calculate_spectrogram_dimensions_closed_form_witness:
  "(2048::int) \<le> 16000 * 1 \<and> (512::int) \<noteq> 0
   \<and> calculate_spectrogram_dimensions 1 2048 512 16000 = Inr (1025, 28)
   \<and> calculate_spectrogram_dimensions 3 400 (- 160) 8000 = Inr (201, - 147)"
  using calculate_spectrogram_dimensions_closed_form [of 2048 16000 1 512]
        calculate_spectrogram_dimensions_closed_form [of 400 8000 3 "- 160"]
  by simp

text \<open>
  C2 as the specification states it has no condition on the hop length. With
  \<open>hop_length = 0\<close> and \<open>sample_rate * duration \<ge> n_fft\<close> the floor division raises
  \<open>ZeroDivisionError\<close> and nothing is returned.
\<close>

theorem calculate_spectrogram_dimensions_zero_hop:
  "(2048::int) \<le> 16000 * 1
   \<and> calculate_spectrogram_dimensions 1 2048 0 16000 = Inl ZeroDivisionError"
  by (simp add: calculate_spectrogram_dimensions_def floordiv_def)

section \<open>The batch feature pipeline: results\<close>

subsection \<open>What a call returns, apart from what it shows and logs\<close>

lemma snd_bound: "snd (bound r) = map_sum id Some (snd r)"
  by (cases r; cases "snd r") (auto simp: bound_def)










text \<open>One turn of the loop, read for its result only.\<close>

lemma snd_extract_loop_Cons:
  "snd (extract_loop L feature sr hop_length n_fft n_mels n_chroma n_mfcc l p n i
          (data # rest) spect fs) =
     (case snd (assign_spect L feature sr hop_length n_fft n_mels n_chroma n_mfcc p data spect) of
        Inl e \<Rightarrow> Inl e
      | Inr None \<Rightarrow> Inl UnboundLocalError
      | Inr (Some m) \<Rightarrow>
          snd (extract_loop L feature sr hop_length n_fft n_mels n_chroma n_mfcc l p n (Suc i)
                 rest (Some m) (fs @ [m])))"
  by (simp add: Let_def split: prod.splits sum.splits option.splits)




lemma snd_extract_features:
  "snd (extract_features L samples feature sr hop_length n_fft n_mels n_chroma n_mfcc
          show_logs show_plt) =
     (case snd (extract_loop L feature sr hop_length n_fft n_mels n_chroma n_mfcc
                  show_logs show_plt (length samples) 0 samples None []) of
        Inl e \<Rightarrow> Inl e
      | Inr features \<Rightarrow> np_array features)"
  by (simp add: extract_features_def Let_def split: prod.splits sum.splits)

subsection \<open>The loop on a recognized tag\<close>

lemma assign_spect_recognized:
  "feature \<in> recognized_tags \<Longrightarrow>
   map_option (map_sum id Some)
     (single_item_extractor L feature sr hop_length n_fft n_mels n_chroma n_mfcc show_plt y) =
   Some (snd (assign_spect L feature sr hop_length n_fft n_mels n_chroma n_mfcc show_plt y
                spect))"
  by (auto simp: recognized_tags_def single_item_extractor_def assign_spect_def snd_bound)

lemma extract_loop_items:
  assumes "feature \<in> recognized_tags"
    and "\<forall>y\<in>set samples. \<exists>m.
           single_item_extractor L feature sr hop_length n_fft n_mels n_chroma n_mfcc show_plt y
             = Some (Inr m)"
  shows "\<exists>ms. snd (extract_loop L feature sr hop_length n_fft n_mels n_chroma n_mfcc show_logs
                      show_plt n i samples spect fs) = Inr (fs @ ms)
            \<and> map (\<lambda>m. Some (Inr m)) ms =
               map (single_item_extractor L feature sr hop_length n_fft n_mels n_chroma n_mfcc
                      show_plt) samples"
  using assms(2)
proof (induction samples arbitrary: i spect fs)
  case Nil
  show ?case by simp
next
  case (Cons data rest)
  from Cons.prems obtain m where
    m: "single_item_extractor L feature sr hop_length n_fft n_mels n_chroma n_mfcc show_plt data
          = Some (Inr m)"
    by auto
  have a: "snd (assign_spect L feature sr hop_length n_fft n_mels n_chroma n_mfcc show_plt
                  data spect) = Inr (Some m)"
    using assign_spect_recognized [OF assms(1), of L sr hop_length n_fft n_mels n_chroma n_mfcc
        show_plt data spect] m
    by simp
  from Cons.prems have "\<forall>y\<in>set rest. \<exists>m.
           single_item_extractor L feature sr hop_length n_fft n_mels n_chroma n_mfcc show_plt y
             = Some (Inr m)"
    by simp
  from Cons.IH [OF this, of "Suc i" "Some m" "fs @ [m]"] obtain ms where
    ms: "snd (extract_loop L feature sr hop_length n_fft n_mels n_chroma n_mfcc show_logs
                show_plt n (Suc i) rest (Some m) (fs @ [m])) = Inr ((fs @ [m]) @ ms)"
        "map (\<lambda>m. Some (Inr m)) ms =
           map (single_item_extractor L feature sr hop_length n_fft n_mels n_chroma n_mfcc
                  show_plt) rest"
    by blast
  have "snd (extract_loop L feature sr hop_length n_fft n_mels n_chroma n_mfcc show_logs
               show_plt n i (data # rest) spect fs) = Inr (fs @ (m # ms))"
    unfolding snd_extract_loop_Cons using a ms(1) by simp
  moreover have "map (\<lambda>m. Some (Inr m)) (m # ms) =
      map (single_item_extractor L feature sr hop_length n_fft n_mels n_chroma n_mfcc
             show_plt) (data # rest)"
    using m ms(2) by simp
  ultimately show ?case by blast
qed

lemma np_array_uniform:
  assumes "xs \<noteq> []" and "\<forall>m\<in>set xs. mshape m = (r, c)"
  shows "np_array xs = Inr (Batch [length xs, r, c] xs)"
proof (cases xs)
  case Nil
  with assms(1) show ?thesis by simp
next
  case (Cons x rest)
  with assms(2) have "mshape x = (r, c)" and "list_all (\<lambda>y. mshape y = mshape x) rest"
    by (simp_all add: list_all_iff)
  with Cons show ?thesis by (simp add: np_array_def)
qed

text \<open>The stand-in library on the mel extractor.\<close>

lemma silent_mel:
  "y \<noteq> [] \<Longrightarrow> 0 < n_fft \<Longrightarrow> 0 < hop_length \<Longrightarrow>
   single_item_extractor silent_librosa ''Mel'' sr hop_length n_fft n_mels n_chroma n_mfcc
     show_plt y =
   Some (Inr (zeros (nat n_mels)
                (nat (1 + (int (length y) + 2 * (n_fft div 2) - n_fft) div hop_length))))"
  by (simp add: single_item_extractor_def extract_mel_spectrogram_def show_figure_def
        silent_librosa_def silent_frames_def)

subsection \<open>An unrecognized extractor name\<close>

text \<open>
  C1. For every non-empty collection of waveforms, \<open>extract_features\<close> called with a
  feature name outside the tag set \<open>Stft\<close>, \<open>Mel\<close>, \<open>MFCC\<close>, \<open>ChromaStft\<close>,
  \<open>SpectralContrast\<close> raises an error and returns no feature array: no branch of the
  chain binds \<open>spect\<close>, and appending it in the first turn of the loop raises
  \<open>UnboundLocalError\<close>.
\<close>

theorem extract_features_unrecognized_raises:
  assumes "samples \<noteq> []" and "feature \<notin> recognized_tags"
  shows "snd (extract_features L samples feature sr hop_length n_fft n_mels n_chroma n_mfcc
                show_logs show_plt) = Inl UnboundLocalError"
proof (cases samples)
  case Nil
  with assms(1) show ?thesis by simp
next
  case (Cons data rest)
  from assms(2) have "snd (assign_spect L feature sr hop_length n_fft n_mels n_chroma n_mfcc
                             show_plt data None) = Inr None"
    by (simp add: recognized_tags_def assign_spect_def)
  with Cons show ?thesis
    unfolding snd_extract_features by (simp only: snd_extract_loop_Cons) simp
qed

theorem extract_features_unrecognized_raises_witness:
  "[[0, 0, 0, 0 :: real]] \<noteq> [] \<and> ''Chroma'' \<notin> recognized_tags
   \<and> snd (extract_features silent_librosa [[0, 0, 0, 0]] ''Chroma'' 16000 2048 2048 128 128 128
            False False) = Inl UnboundLocalError"
proof -
  have h1: "[[0, 0, 0, 0 :: real]] \<noteq> []" by simp
  have h2: "''Chroma'' \<notin> recognized_tags" by (simp add: recognized_tags_def)
  from h1 h2 extract_features_unrecognized_raises [OF h1 h2] show ?thesis by blast
qed

subsection \<open>The empty collection\<close>

text \<open>
  C10. For the empty waveform collection \<open>extract_features\<close> returns the empty array,
  of shape \<open>(0,)\<close>, without raising, for every feature tag, recognized or not: the loop
  body and with it the dispatch is never reached.
\<close>

theorem extract_features_empty:
  "snd (extract_features L [] feature sr hop_length n_fft n_mels n_chroma n_mfcc
          show_logs show_plt) = Inr (Batch [0] [])"
  by (simp add: extract_features_def np_array_def)

theorem extract_features_empty_witness:
  "''Nope'' \<notin> recognized_tags
   \<and> snd (extract_features silent_librosa [] ''Nope'' 16000 2048 2048 128 128 128 True True)
       = Inr (Batch [0] [])
   \<and> snd (extract_features silent_librosa [] ''Mel'' 16000 2048 2048 128 128 128 False False)
       = Inr (Batch [0] [])"
  using extract_features_empty [of silent_librosa "''Nope''" 16000 2048 2048 128 128 128 True True]
        extract_features_empty [of silent_librosa "''Mel''" 16000 2048 2048 128 128 128 False False]
  by (simp add: recognized_tags_def)

subsection \<open>Logging and plotting\<close>




subsection \<open>The shape of the batch\<close>

text \<open>
  C4, as amended. For every non-empty collection of \<open>N\<close> waveforms and every recognized
  extractor tag with a shared parameter set, if the matching single-item extractor returns
  a matrix of one shape \<open>(r, c)\<close> for each waveform, then \<open>extract_features\<close> returns an
  array of shape \<open>(N, r, c)\<close> whose slices are the extractor's matrices for the waveforms,
  in input order.
\<close>

theorem extract_features_stacks:
  assumes "samples \<noteq> []"
    and "feature \<in> recognized_tags"
    and "\<forall>y\<in>set samples. \<exists>m.
           single_item_extractor L feature sr hop_length n_fft n_mels n_chroma n_mfcc show_plt y
             = Some (Inr m) \<and> mshape m = (r, c)"
  shows "\<exists>b. snd (extract_features L samples feature sr hop_length n_fft n_mels n_chroma n_mfcc
                     show_logs show_plt) = Inr b
           \<and> bshape b = [length samples, r, c]
           \<and> map (\<lambda>m. Some (Inr m)) (bitems b) =
               map (single_item_extractor L feature sr hop_length n_fft n_mels n_chroma n_mfcc
                      show_plt) samples"
proof -
  from assms(3) have ok: "\<forall>y\<in>set samples. \<exists>m.
           single_item_extractor L feature sr hop_length n_fft n_mels n_chroma n_mfcc show_plt y
             = Some (Inr m)"
    by blast
  from extract_loop_items [OF assms(2) ok, of show_logs "length samples" 0 None "[]"]
  obtain ms where
    ms: "snd (extract_loop L feature sr hop_length n_fft n_mels n_chroma n_mfcc show_logs
                show_plt (length samples) 0 samples None []) = Inr ms"
        "map (\<lambda>m. Some (Inr m)) ms =
           map (single_item_extractor L feature sr hop_length n_fft n_mels n_chroma n_mfcc
                  show_plt) samples"
    by auto
  from ms(2) have len: "length ms = length samples"
    by (metis length_map)
  with assms(1) have ne: "ms \<noteq> []" by auto
  have shp: "\<forall>m\<in>set ms. mshape m = (r, c)"
  proof
    fix m assume "m \<in> set ms"
    then obtain k where k: "k < length ms" "ms ! k = m"
      by (auto simp: in_set_conv_nth)
    have "map (\<lambda>m. Some (Inr m)) ms ! k =
          map (single_item_extractor L feature sr hop_length n_fft n_mels n_chroma n_mfcc
                 show_plt) samples ! k"
      by (simp only: ms(2))
    with k len have "single_item_extractor L feature sr hop_length n_fft n_mels n_chroma n_mfcc
        show_plt (samples ! k) = Some (Inr m)"
      by simp
    moreover from k len have "samples ! k \<in> set samples" by simp
    ultimately show "mshape m = (r, c)" using assms(3) by fastforce
  qed
  have "snd (extract_features L samples feature sr hop_length n_fft n_mels n_chroma n_mfcc
               show_logs show_plt) = Inr (Batch [length samples, r, c] ms)"
    unfolding snd_extract_features using ms(1) np_array_uniform [OF ne shp] len by simp
  with ms(2) show ?thesis by simp
qed

theorem extract_features_stacks_witness:
  "[[0, 0, 0, 0], [1, 1, 1, 1, 1::real]] \<noteq> []
   \<and> ''Mel'' \<in> recognized_tags
   \<and> single_item_extractor silent_librosa ''Mel'' 16000 2 4 3 3 3 True [0, 0, 0, 0]
       = Some (Inr (zeros 3 3))
   \<and> single_item_extractor silent_librosa ''Mel'' 16000 2 4 3 3 3 True [1, 1, 1, 1, 1]
       = Some (Inr (zeros 3 3))
   \<and> mshape (zeros 3 3) = (3, 3)
   \<and> (\<exists>b. snd (extract_features silent_librosa [[0, 0, 0, 0], [1, 1, 1, 1, 1]] ''Mel''
                  16000 2 4 3 3 3 True True) = Inr b
          \<and> bshape b = [2, 3, 3]
          \<and> bitems b = [zeros 3 3, zeros 3 3])"
proof -
  have h1: "[[0, 0, 0, 0], [1, 1, 1, 1, 1::real]] \<noteq> []" by simp
  have h2: "''Mel'' \<in> recognized_tags" by (simp add: recognized_tags_def)
  have e1: "single_item_extractor silent_librosa ''Mel'' 16000 2 4 3 3 3 True [0, 0, 0, 0]
       = Some (Inr (zeros 3 3))"
    by (simp add: silent_mel numeral_3_eq_3)
  have e2: "single_item_extractor silent_librosa ''Mel'' 16000 2 4 3 3 3 True [1, 1, 1, 1, 1]
       = Some (Inr (zeros 3 3))"
    by (simp add: silent_mel numeral_3_eq_3)
  have z: "mshape (zeros 3 3) = (3, 3)" by (simp add: zeros_def)
  have h3: "\<forall>y\<in>set [[0, 0, 0, 0], [1, 1, 1, 1, 1::real]]. \<exists>m.
         single_item_extractor silent_librosa ''Mel'' 16000 2 4 3 3 3 True y = Some (Inr m)
         \<and> mshape m = (3, 3)"
    using e1 e2 z by simp
  from extract_features_stacks [OF h1 h2 h3, of True] obtain b where
    b: "snd (extract_features silent_librosa [[0, 0, 0, 0], [1, 1, 1, 1, 1]] ''Mel''
               16000 2 4 3 3 3 True True) = Inr b"
       "bshape b = [length [[0, 0, 0, 0], [1, 1, 1, 1, 1::real]], 3, 3]"
       "map (\<lambda>m. Some (Inr m)) (bitems b) =
          map (single_item_extractor silent_librosa ''Mel'' 16000 2 4 3 3 3 True)
            [[0, 0, 0, 0], [1, 1, 1, 1, 1]]"
    by blast
  from b(3) e1 e2 have "map (\<lambda>m. Some (Inr m :: py_error + matrix)) (bitems b) =
      map (\<lambda>m. Some (Inr m)) [zeros 3 3, zeros 3 3]"
    by simp
  then have "bitems b = [zeros 3 3, zeros 3 3]"
    by (simp add: inj_on_def map_eq_Cons_conv)
  with b(1) b(2) have "\<exists>b. snd (extract_features silent_librosa [[0, 0, 0, 0], [1, 1, 1, 1, 1]]
                  ''Mel'' 16000 2 4 3 3 3 True True) = Inr b
          \<and> bshape b = [2, 3, 3]
          \<and> bitems b = [zeros 3 3, zeros 3 3]"
    by simp
  with h1 h2 e1 e2 z show ?thesis by blast
qed

text \<open>
  C4 as the specification states it covers the empty collection too. There the array
  returned has shape \<open>(0,)\<close>: its first dimension is \<open>N = 0\<close>, but no dimensions remain to
  equal the shape of an extractor's matrix, such as the \<open>(128, 8)\<close> of the mel extractor on
  one second of audio with the default parameters.
\<close>

theorem extract_features_empty_has_no_matrix_shape:
  "snd (extract_features silent_librosa [] ''Mel'' 16000 2048 2048 128 128 128 False False)
     = Inr (Batch [0] [])
   \<and> tl (bshape (Batch [0] [])) = []
   \<and> map_option (map_sum id mshape)
       (single_item_extractor silent_librosa ''Mel'' 16000 2048 2048 128 128 128 False
          (replicate 16000 0)) = Some (Inr (128, 8))
   \<and> bshape (Batch [0] []) \<noteq> [0, 128, 8]"
  by (simp add: extract_features_def np_array_def silent_mel zeros_def)

text \<open>
  Waveforms of different lengths give matrices of different shapes, which \<open>np.array\<close>
  does not stack: with a hop of 2 samples, 4 and 8 samples give 3 and 5 frames.
\<close>

lemma extract_features_ragged:
  "snd (extract_features silent_librosa [[0, 0, 0, 0], [0, 0, 0, 0, 0, 0, 0, 0]] ''Mel''
          16000 2 4 3 3 3 False False) = Inl ValueError"
  by (simp add: extract_features_def assign_spect_def bound_def extract_mel_spectrogram_def
        silent_librosa_def silent_frames_def np_array_def zeros_def)

section \<open>The label encoder: results\<close>

subsection \<open>The dictionary of an enumeration\<close>

lemma map_of_enumerate_nth:
  assumes "j < length xs"
  shows "map_of (enumerate 0 xs) j = Some (xs ! j)"
proof -
  have "map_of (zip [0..<length xs] xs) ([0..<length xs] ! j) = Some (xs ! j)"
    using assms by (intro map_of_zip_nth) simp_all
  with assms show ?thesis by (simp add: enumerate_eq_zip)
qed

lemma fst_set_enumerate: "fst ` set (enumerate 0 xs) = {..<length xs}"
proof -
  have "fst ` set (enumerate 0 xs) = set (map fst (enumerate 0 xs))"
    by (simp only: set_map)
  also have "\<dots> = {..<length xs}"
    by (simp add: lessThan_atLeast0)
  finally show ?thesis .
qed

lemma map_of_enumerate_beyond:
  "length xs \<le> j \<Longrightarrow> map_of (enumerate 0 xs) j = None"
  by (simp add: map_of_eq_None_iff fst_set_enumerate)

lemma dom_map_of_enumerate: "dom (map_of (enumerate 0 xs)) = {..<length xs}"
  by (simp only: dom_map_of_conv_image_fst fst_set_enumerate)

subsection \<open>One encoded row\<close>

lemma find_one_enumerate:
  assumes "distinct cats" and "v \<in> set cats"
  shows "\<exists>j. find (\<lambda>(j, x). x = 1)
                (enumerate n (map (\<lambda>c. if c = v then 1 else (0::real)) cats)) = Some (j, 1)
             \<and> n \<le> j \<and> j - n < length cats \<and> cats ! (j - n) = v"
  using assms
proof (induction cats arbitrary: n)
  case Nil
  then show ?case by simp
next
  case (Cons c cats)
  show ?case
  proof (cases "c = v")
    case True
    then show ?thesis by simp
  next
    case False
    with Cons.prems have "distinct cats" "v \<in> set cats" by auto
    from Cons.IH [OF this, of "Suc n"] obtain j where
      j: "find (\<lambda>(j, x). x = 1)
            (enumerate (Suc n) (map (\<lambda>c. if c = v then 1 else (0::real)) cats)) = Some (j, 1)"
         "Suc n \<le> j" "j - Suc n < length cats" "cats ! (j - Suc n) = v"
      by blast
    have "j - n = Suc (j - Suc n)" using j(2) by simp
    with j False show ?thesis by auto
  qed
qed

lemma one_hot_row:
  assumes "distinct cats" and "v \<in> set cats"
  shows "filter (\<lambda>x. x \<noteq> 0) (map (\<lambda>c. if c = v then 1 else (0::real)) cats) = [1]"
  using assms
proof (induction cats)
  case Nil
  then show ?case by simp
next
  case (Cons c cats)
  show ?case
  proof (cases "c = v")
    case True
    with Cons.prems have "v \<notin> set cats" by auto
    then have "filter (\<lambda>x. x \<noteq> 0) (map (\<lambda>c. if c = v then 1 else (0::real)) cats) = []"
      by (induction cats) auto
    with True show ?thesis by simp
  next
    case False
    with Cons show ?thesis by auto
  qed
qed

lemma decode_row_encoded:
  assumes "distinct cats" and "v \<in> set cats"
  shows "decode_row (map_of (enumerate 0 cats)) (map (\<lambda>c. if c = v then 1 else 0) cats)
           = Some v"
proof -
  from find_one_enumerate [OF assms, of 0] obtain j where
    "find (\<lambda>(j, x). x = 1) (enumerate 0 (map (\<lambda>c. if c = v then 1 else (0::real)) cats))
       = Some (j, 1)"
    and "j < length cats" and "cats ! j = v"
    by auto
  then show ?thesis
    by (simp add: decode_row_def column_of_one_def map_of_enumerate_nth)
qed

lemma categories_of_labels:
  "distinct (sort (remdups labels))"
  "set (sort (remdups labels)) = set labels"
  "length (sort (remdups labels)) = card (set labels)"
proof -
  show d: "distinct (sort (remdups labels))" and s: "set (sort (remdups labels)) = set labels"
    by simp_all
  from distinct_card [OF d] s show "length (sort (remdups labels)) = card (set labels)"
    by simp
qed

subsection \<open>The column the encoder sees\<close>

lemma onehot_encode_column:
  assumes "np_column labels = Inr column" and "column \<noteq> []"
  shows "onehot_encode np_column labels =
           Inr (encoder_transform (sort (remdups column)) column,
                map_of (enumerate 0 (sort (remdups column))))"
  using assms by (simp add: onehot_encode_def encoder_fit_def)

lemma onehot_encode_returns:
  assumes "onehot_encode np_column labels = Inr (M, mapping)"
  shows "\<exists>column. np_column labels = Inr column \<and> column \<noteq> []
           \<and> M = encoder_transform (sort (remdups column)) column
           \<and> mapping = map_of (enumerate 0 (sort (remdups column)))"
  using assms
  by (auto simp: onehot_encode_def encoder_fit_def split: sum.splits if_splits)

lemma sorted_list_of_set_strict_mono:
  fixes store :: "'a::linorder \<Rightarrow> 'b::linorder"
  assumes "strict_mono store" and "finite A"
  shows "sorted_list_of_set (store ` A) = map store (sorted_list_of_set A)"
proof -
  have inj: "inj store" using assms(1) by (rule strict_mono_imp_inj_on)
  have mono: "mono store" using assms(1) by (rule strict_mono_mono)
  have "sorted_wrt (\<lambda>x y. store x \<le> store y) (sorted_list_of_set A)"
    by (rule sorted_wrt_mono_rel [where P = "(\<le>)"]) (auto simp: monoD [OF mono])
  then have s: "sorted (map store (sorted_list_of_set A))"
    by (simp add: sorted_map)
  have d: "distinct (map store (sorted_list_of_set A))"
    using inj by (simp add: distinct_map inj_on_def)
  have e: "set (map store (sorted_list_of_set A)) = store ` A"
    using assms(2) by simp
  from sorted_list_of_set.idem_if_sorted_distinct [OF s d] e show ?thesis
    by simp
qed

text \<open>NumPy on three labels that need \<open>int64\<close> and \<open>uint64\<close> together, and on small ones.\<close>

lemma bit_length_between:
  "2 ^ k \<le> n \<Longrightarrow> n < 2 ^ Suc k \<Longrightarrow> bit_length n = Suc k"
proof (induction k arbitrary: n)
  case 0
  then have "n = 1" by simp
  then show ?case by (simp add: bit_length.simps)
next
  case (Suc k)
  from Suc.prems have "2 ^ k \<le> n div 2" and "n div 2 < 2 ^ Suc k" and "n \<noteq> 0"
    by auto
  with Suc.IH [of "n div 2"] show ?case
    by (subst bit_length.simps) simp
qed

lemma bit_length_values:
  "bit_length 9223372036854775808 = 64"
  "bit_length 9223372036854775809 = 64"
  "bit_length (Suc 0) = Suc 0"
  using bit_length_between [of 63 9223372036854775808]
        bit_length_between [of 63 9223372036854775809]
        bit_length_between [of 0 1]
  by simp_all

lemma float64_merges:
  "float64_of_int 9223372036854775808 = 9223372036854775808"
  "float64_of_int 9223372036854775809 = 9223372036854775808"
  "float64_of_int 1 = 1"
  by (simp_all add: float64_of_int_def bit_length_values Let_def)

lemma merged_column:
  "np_array_of_ints [9223372036854775808, 1, 9223372036854775809]
     = Inr [9223372036854775808, 1, 9223372036854775808]"
  by (simp add: np_array_of_ints_def float64_merges)

lemma merged_encoding:
  "onehot_encode np_array_of_ints [9223372036854775808, 1, 9223372036854775809] =
     Inr ([[0, 1], [1, 0], [0, 1]], map_of (enumerate 0 [1, 9223372036854775808]))"
proof -
  have "[9223372036854775808, 1, 9223372036854775808 :: int] \<noteq> []" by simp
  from onehot_encode_column
         [of np_array_of_ints "[9223372036854775808, 1, 9223372036854775809]"
             "[9223372036854775808, 1, 9223372036854775808]", OF merged_column this]
  show ?thesis
    by (simp add: encoder_transform_def)
qed

lemma enumerate_two: "enumerate 0 [a, b] = [(0, a), (1, b)]"
  by simp

lemma small_column: "np_array_of_ints [7, 3, 7, 9] = Inr [7, 3, 7, 9]"
  by (simp add: np_array_of_ints_def)

subsection \<open>The round trip\<close>

text \<open>
  C3, as amended. For every non-empty ordered collection of \<open>N\<close> labels (repeats
  allowed) that \<open>np.array\<close> stores one element per label with distinct labels as distinct
  elements, \<open>onehot_encode\<close> returns an \<open>N\<close>-by-\<open>K\<close> one-hot matrix and an
  index-to-label mapping on the column indices \<open>0 .. K - 1\<close>, where \<open>K\<close> is the number of
  distinct input labels, and decoding each row through the mapping (the label at the
  column holding the 1) gives back the label sequence, each label as the array stores it.
\<close>

theorem onehot_encode_round_trip:
  assumes "labels \<noteq> []"
    and "np_column labels = Inr (map store labels)"
    and "inj_on store (set labels)"
  shows "\<exists>M mapping. onehot_encode np_column labels = Inr (M, mapping)
           \<and> length M = length labels
           \<and> (\<forall>row\<in>set M. length row = card (set labels) \<and> one_hot row)
           \<and> dom mapping = {..<card (set labels)}
           \<and> map (decode_row mapping) M = map (\<lambda>l. Some (store l)) labels"
proof -
  let ?column = "map store labels"
  let ?cats = "sort (remdups ?column)"
  note cats = categories_of_labels [of ?column]
  have k: "card (set ?column) = card (set labels)"
    using card_image [OF assms(3)] by simp
  from assms(1) have ne: "?column \<noteq> []" by simp
  have enc: "onehot_encode np_column labels =
      Inr (encoder_transform ?cats ?column, map_of (enumerate 0 ?cats))"
    by (rule onehot_encode_column [of np_column labels ?column, OF assms(2) ne])
  have rows: "\<forall>row\<in>set (encoder_transform ?cats ?column).
      length row = card (set labels) \<and> one_hot row"
    using one_hot_row [OF cats(1)] cats(2) cats(3) k
    by (auto simp: encoder_transform_def one_hot_def)
  have dm: "dom (map_of (enumerate 0 ?cats)) = {..<card (set labels)}"
    by (simp only: dom_map_of_enumerate cats(3) k)
  have dec: "map (decode_row (map_of (enumerate 0 ?cats))) (encoder_transform ?cats ?column)
      = map (\<lambda>l. Some (store l)) labels"
    using decode_row_encoded [OF cats(1)] cats(2) by (simp add: encoder_transform_def)
  have len: "length (encoder_transform ?cats ?column) = length labels"
    by (simp add: encoder_transform_def)
  from enc len rows dm dec show ?thesis by blast
qed

theorem onehot_encode_round_trip_witness:
  "[7, 3, 7, 9 :: int] \<noteq> []
   \<and> np_array_of_ints [7, 3, 7, 9] = Inr [7, 3, 7, 9]
   \<and> card (set [7, 3, 7, 9 :: int]) = 3
   \<and> (\<exists>M mapping. onehot_encode np_array_of_ints [7, 3, 7, 9] = Inr (M, mapping)
         \<and> M = [[0, 1, 0], [1, 0, 0], [0, 1, 0], [0, 0, 1]]
         \<and> length M = 4
         \<and> dom mapping = {..<3}
         \<and> map (decode_row mapping) M = [Some 7, Some 3, Some 7, Some 9])"
proof -
  have h: "[7, 3, 7, 9 :: int] \<noteq> []" by simp
  have c: "np_array_of_ints [7, 3, 7, 9] = Inr (map (\<lambda>x. x) [7, 3, 7, 9])"
    by (simp add: small_column)
  have i: "inj_on (\<lambda>x :: int. x) (set [7, 3, 7, 9])"
    by (simp add: inj_on_def)
  have k: "card (set [7, 3, 7, 9 :: int]) = 3"
    by (simp only: card_set) simp
  from onehot_encode_round_trip [of "[7, 3, 7, 9]" np_array_of_ints "\<lambda>x. x", OF h c i]
  obtain M mapping where
    r: "onehot_encode np_array_of_ints [7, 3, 7, 9] = Inr (M, mapping)"
       "length M = length [7, 3, 7, 9 :: int]"
       "dom mapping = {..<card (set [7, 3, 7, 9 :: int])}"
       "map (decode_row mapping) M = map (\<lambda>l. Some l) [7, 3, 7, 9 :: int]"
    by blast
  from r(1) have "M = [[0, 1, 0], [1, 0, 0], [0, 1, 0], [0, 0, 1]]"
    by (simp add: onehot_encode_def small_column encoder_fit_def encoder_transform_def)
  with r k have "\<exists>M mapping. onehot_encode np_array_of_ints [7, 3, 7, 9] = Inr (M, mapping)
         \<and> M = [[0, 1, 0], [1, 0, 0], [0, 1, 0], [0, 0, 1]]
         \<and> length M = 4
         \<and> dom mapping = {..<3}
         \<and> map (decode_row mapping) M = [Some 7, Some 3, Some 7, Some 9]"
    by simp
  with h k small_column show ?thesis by blast
qed

text \<open>
  C3 as the specification states it covers every collection. For the collection of no
  labels the encoder refuses to fit and \<open>onehot_encode\<close> raises \<open>ValueError\<close>. For the
  three distinct labels \<open>2^63\<close>, \<open>1\<close>, \<open>2^63 + 1\<close> NumPy stores doubles, in which the first
  and the third label are the same number: the matrix has two columns, not three, and the
  rows decode to \<open>2^63\<close>, \<open>1\<close>, \<open>2^63\<close>.
\<close>

theorem onehot_encode_empty_or_merged:
  "onehot_encode np_array_of_ints [] = Inl ValueError
   \<and> onehot_encode np_array_of_ints [9223372036854775808, 1, 9223372036854775809] =
       Inr ([[0, 1], [1, 0], [0, 1]], map_of [(0, 1), (1, 9223372036854775808)])
   \<and> card (set [9223372036854775808, 1, 9223372036854775809 :: int]) = 3
   \<and> map (decode_row (map_of [(0, 1), (1, 9223372036854775808 :: int)]))
         [[0, 1], [1, 0], [0, 1]]
       = [Some 9223372036854775808, Some 1, Some 9223372036854775808]"
proof -
  have "onehot_encode np_array_of_ints [] = Inl ValueError"
    by (simp add: onehot_encode_def np_array_of_ints_def encoder_fit_def)
  moreover have "onehot_encode np_array_of_ints [9223372036854775808, 1, 9223372036854775809] =
       Inr ([[0, 1], [1, 0], [0, 1]], map_of [(0, 1), (1, 9223372036854775808)])"
    using merged_encoding by (simp only: enumerate_two)
  moreover have "card (set [9223372036854775808, 1, 9223372036854775809 :: int]) = 3"
    by (simp only: card_set) simp
  moreover have "map (decode_row (map_of [(0, 1), (1, 9223372036854775808 :: int)]))
         [[0, 1], [1, 0], [0, 1]]
       = [Some 9223372036854775808, Some 1, Some 9223372036854775808]"
    by (simp add: decode_row_def column_of_one_def)
  ultimately show ?thesis by blast
qed

subsection \<open>The order of the columns\<close>

text \<open>
  C6, as amended. For every label collection on which \<open>onehot_encode\<close> returns, the
  column ordering of the one-hot matrix is the sorted order of the distinct elements of the
  column that \<open>np.array\<close> makes of the labels: the mapping sends column index \<open>i\<close> to the
  \<open>i\<close>-th smallest distinct element and is undefined beyond the last column, and the
  entry of a row in column \<open>i\<close> is 1 exactly when the row's element is that \<open>i\<close>-th
  smallest one. Where NumPy stores the labels one by one and in their order (a strictly
  monotone storing), column \<open>i\<close> is the \<open>i\<close>-th smallest distinct label.
\<close>

theorem onehot_encode_sorted_columns:
  assumes "onehot_encode np_column labels = Inr (M, mapping)"
  shows "\<exists>column. np_column labels = Inr column
       \<and> (\<forall>i < card (set column). mapping i = Some (sorted_list_of_set (set column) ! i))
       \<and> (\<forall>i \<ge> card (set column). mapping i = None)
       \<and> (\<forall>n < length column. \<forall>i < card (set column).
            M ! n ! i = (if column ! n = sorted_list_of_set (set column) ! i then 1 else 0))
       \<and> (\<forall>store. strict_mono store \<and> column = map store labels \<longrightarrow>
            card (set column) = card (set labels)
            \<and> (\<forall>i < card (set labels).
                  mapping i = Some (store (sorted_list_of_set (set labels) ! i))))"
proof -
  from onehot_encode_returns [of np_column labels M mapping, OF assms] obtain column where
    col: "np_column labels = Inr column"
    and M: "M = encoder_transform (sort (remdups column)) column"
    and mp: "mapping = map_of (enumerate 0 (sort (remdups column)))"
    by blast
  let ?cats = "sort (remdups column)"
  note cats = categories_of_labels [of column]
  have sl: "sorted_list_of_set (set column) = ?cats"
    by (rule sorted_list_of_set_sort_remdups)
  have 1: "\<forall>i < card (set column). mapping i = Some (sorted_list_of_set (set column) ! i)"
    unfolding sl mp using map_of_enumerate_nth [of _ ?cats] cats(3) by simp
  have 2: "\<forall>i \<ge> card (set column). mapping i = None"
    unfolding mp using map_of_enumerate_beyond [of ?cats] cats(3) by simp
  have 3: "\<forall>n < length column. \<forall>i < card (set column).
            M ! n ! i = (if column ! n = sorted_list_of_set (set column) ! i then 1 else 0)"
    unfolding sl M encoder_transform_def using cats(3) by auto
  have 4: "\<forall>store. strict_mono store \<and> column = map store labels \<longrightarrow>
            card (set column) = card (set labels)
            \<and> (\<forall>i < card (set labels).
                  mapping i = Some (store (sorted_list_of_set (set labels) ! i)))"
  proof (intro allI impI)
    fix store
    assume a: "strict_mono store \<and> column = map store labels"
    then have sm: "strict_mono store" and c: "column = map store labels" by simp_all
    have inj: "inj_on store (set labels)"
      using sm by (rule strict_mono_imp_inj_on)
    have k: "card (set column) = card (set labels)"
      unfolding c using card_image [OF inj] by simp
    have img: "sorted_list_of_set (set column) = map store (sorted_list_of_set (set labels))"
      unfolding c using sorted_list_of_set_strict_mono [OF sm, of "set labels"] by simp
    have "\<forall>i < card (set labels).
            mapping i = Some (store (sorted_list_of_set (set labels) ! i))"
    proof (intro allI impI)
      fix i assume i: "i < card (set labels)"
      with 1 k have "mapping i = Some (sorted_list_of_set (set column) ! i)" by simp
      with i show "mapping i = Some (store (sorted_list_of_set (set labels) ! i))"
        unfolding img by simp
    qed
    with k show "card (set column) = card (set labels)
            \<and> (\<forall>i < card (set labels).
                  mapping i = Some (store (sorted_list_of_set (set labels) ! i)))"
      by blast
  qed
  from col 1 2 3 4 show ?thesis by blast
qed

theorem onehot_encode_sorted_columns_witness:
  "onehot_encode np_array_of_ints [7, 3, 7, 9] =
     Inr ([[0, 1, 0], [1, 0, 0], [0, 1, 0], [0, 0, 1]], map_of [(0, 3), (1, 7), (2, 9)])
   \<and> np_array_of_ints [7, 3, 7, 9] = Inr [7, 3, 7, 9]
   \<and> sorted_list_of_set (set [7, 3, 7, 9 :: int]) = [3, 7, 9]
   \<and> map_of [(0, 3), (1, 7), (2, 9 :: int)] (0 :: nat) = Some 3
   \<and> map_of [(0, 3), (1, 7), (2, 9 :: int)] (1 :: nat) = Some 7
   \<and> map_of [(0, 3), (1, 7), (2, 9 :: int)] (2 :: nat) = Some 9
   \<and> map_of [(0, 3), (1, 7), (2, 9 :: int)] (3 :: nat) = None"
proof -
  let ?mapping = "map_of [(0 :: nat, 3), (1, 7), (2, 9 :: int)]"
  have e: "enumerate 0 [3, 7, 9 :: int] = [(0, 3), (1, 7), (2, 9)]"
    by (simp add: numeral_2_eq_2)
  have h: "onehot_encode np_array_of_ints [7, 3, 7, 9] =
     Inr ([[0, 1, 0], [1, 0, 0], [0, 1, 0], [0, 0, 1]], ?mapping)"
    unfolding e [symmetric]
    by (simp add: onehot_encode_def small_column encoder_fit_def encoder_transform_def)
  have s: "sorted_list_of_set (set [7, 3, 7, 9 :: int]) = [3, 7, 9]"
    by (simp only: sorted_list_of_set_sort_remdups) simp
  have k: "card (set [7, 3, 7, 9 :: int]) = 3"
    by (simp only: card_set) simp
  from onehot_encode_sorted_columns
         [of np_array_of_ints "[7, 3, 7, 9]" "[[0, 1, 0], [1, 0, 0], [0, 1, 0], [0, 0, 1]]"
             ?mapping, OF h]
  obtain column where
    col: "np_array_of_ints [7, 3, 7, 9] = Inr column"
    and m: "\<forall>i < card (set column). ?mapping i = Some (sorted_list_of_set (set column) ! i)"
    and n: "\<forall>i \<ge> card (set column). ?mapping i = None"
    by blast
  from col have c: "column = [7, 3, 7, 9]" by (simp add: small_column)
  from m have "?mapping 0 = Some 3" and "?mapping 1 = Some 7" and "?mapping 2 = Some 9"
    unfolding c k s by simp_all
  moreover from n have "?mapping 3 = None"
    unfolding c k by simp
  ultimately show ?thesis using h s small_column by blast
qed

text \<open>
  C6 as the specification states it orders the columns by the distinct labels. For the
  labels \<open>2^63\<close>, \<open>1\<close>, \<open>2^63 + 1\<close> the third smallest distinct label is \<open>2^63 + 1\<close>, but
  the matrix has only the columns 0 and 1 and the mapping has no column 2.
\<close>

theorem onehot_encode_merged_columns:
  "onehot_encode np_array_of_ints [9223372036854775808, 1, 9223372036854775809] =
     Inr ([[0, 1], [1, 0], [0, 1]], map_of [(0, 1), (1, 9223372036854775808)])
   \<and> sorted_list_of_set (set [9223372036854775808, 1, 9223372036854775809 :: int])
       = [1, 9223372036854775808, 9223372036854775809]
   \<and> map_of [(0, 1), (1, 9223372036854775808 :: int)] (2 :: nat) = None"
proof -
  have "onehot_encode np_array_of_ints [9223372036854775808, 1, 9223372036854775809] =
       Inr ([[0, 1], [1, 0], [0, 1]], map_of [(0, 1), (1, 9223372036854775808)])"
    using merged_encoding by (simp only: enumerate_two)
  moreover have "sorted_list_of_set (set [9223372036854775808, 1, 9223372036854775809 :: int])
       = [1, 9223372036854775808, 9223372036854775809]"
    by (simp only: sorted_list_of_set_sort_remdups) simp
  ultimately show ?thesis by simp
qed

section \<open>The improved CNN: results\<close>

text \<open>
  C5, as amended. In the model returned by \<open>create_better_base_cnn_model\<close>, for any
  feature width, feature height, channel count and class count, every convolutional layer
  and every dense layer before the output layer carries the L2 weight regularizer with
  coefficient 0.01; the output layer is the softmax \<open>Dense(classes)\<close> with no regularizer.
\<close>

theorem better_cnn_regularizers:
  "(\<forall>l\<in>set (butlast (create_better_base_cnn_model feature_width feature_height channels
                         classes)).
      is_Conv2D l \<or> is_Dense l \<longrightarrow> kernel_regularizer l = Some (L2 0.01))
   \<and> last (create_better_base_cnn_model feature_width feature_height channels classes)
       = Dense classes (Some (Named ''softmax'')) None"
  by (simp add: create_better_base_cnn_model_def)

theorem better_cnn_regularizers_witness:
  "create_better_base_cnn_model 128 8 1 50 ! 7 = Dense 512 None (Some (L2 0.01))
   \<and> create_better_base_cnn_model 128 8 1 50 ! 7
       \<in> set (butlast (create_better_base_cnn_model 128 8 1 50))
   \<and> is_Dense (create_better_base_cnn_model 128 8 1 50 ! 7)
   \<and> kernel_regularizer (create_better_base_cnn_model 128 8 1 50 ! 7) = Some (L2 0.01)
   \<and> last (create_better_base_cnn_model 128 8 1 50) = Dense 50 (Some (Named ''softmax'')) None"
proof -
  let ?l = "create_better_base_cnn_model 128 8 1 50 ! 7"
  have l: "?l = Dense 512 None (Some (L2 0.01))"
    by (simp add: create_better_base_cnn_model_def)
  have mem: "?l \<in> set (butlast (create_better_base_cnn_model 128 8 1 50))"
    by (simp add: create_better_base_cnn_model_def)
  have d: "is_Dense ?l" by (simp add: l)
  from better_cnn_regularizers [of 128 8 1 50] mem d
  have "kernel_regularizer ?l = Some (L2 0.01)"
    and "last (create_better_base_cnn_model 128 8 1 50) = Dense 50 (Some (Named ''softmax'')) None"
    by blast+
  with l mem d show ?thesis by blast
qed

text \<open>
  C5 as the specification states it asks for the regularizer on every dense layer. The
  output layer is a dense layer and has none.
\<close>

theorem better_cnn_output_layer_unregularized:
  "create_better_base_cnn_model 128 8 1 50 ! 15 = Dense 50 (Some (Named ''softmax'')) None
   \<and> is_Dense (create_better_base_cnn_model 128 8 1 50 ! 15)
   \<and> kernel_regularizer (create_better_base_cnn_model 128 8 1 50 ! 15) = None"
  by (simp add: create_better_base_cnn_model_def)

section \<open>The evaluator: results\<close>

subsection \<open>Output and result of a sequence\<close>

lemma fst_andthen:
  "fst (andthen m f) = fst m @ (case snd m of Inl e \<Rightarrow> [] | Inr a \<Rightarrow> fst (f a))"
  by (cases m; cases "snd m") (auto simp: andthen_def split: prod.splits)

lemma snd_andthen:
  "snd (andthen m f) = (case snd m of Inl e \<Rightarrow> Inl e | Inr a \<Rightarrow> snd (f a))"
  by (cases m; cases "snd m") (auto simp: andthen_def split: prod.splits)

lemma run_simps:
  "fst (say x) = [x]" "snd (say x) = Inr ()"
  "fst (call r) = []" "snd (call r) = r"
  "fst skip = []" "snd skip = Inr ()"
  by (simp_all add: say_def call_def skip_def)

lemma saved_files_simps:
  "saved_files [] = []"
  "saved_files (xs @ ys) = saved_files xs @ saved_files ys"
  "saved_files (x # xs) =
     (case saved x of None \<Rightarrow> saved_files xs | Some f \<Rightarrow> f # saved_files xs)"
  by (simp_all add: saved_files_def List.map_filter_def split: option.splits)

lemma set_saved_files: "f \<in> set (saved_files out) \<longleftrightarrow> Savefig f \<in> set out"
proof (induction out)
  case Nil
  show ?case by (simp add: saved_files_simps)
next
  case (Cons x out)
  then show ?case by (cases x) (auto simp: saved_files_simps)
qed

lemma printed_reports_simps:
  "printed_reports [] = []"
  "printed_reports (xs @ ys) = printed_reports xs @ printed_reports ys"
  "printed_reports (x # xs) =
     (case reported x of None \<Rightarrow> printed_reports xs | Some r \<Rightarrow> r # printed_reports xs)"
  by (simp_all add: printed_reports_def List.map_filter_def split: option.splits)

lemma set_printed_reports:
  "rows \<in> set (printed_reports out) \<longleftrightarrow> PrintReport rows \<in> set out"
proof (induction out)
  case Nil
  show ?case by (simp add: printed_reports_simps)
next
  case (Cons x out)
  then show ?case by (cases x) (auto simp: printed_reports_simps)
qed

subsection \<open>The plotting block\<close>

lemma plot_quiet:
  "saved_files (fst (plot legend x y)) = []"
  "printed_reports (fst (plot legend x y)) = []"
  by (simp_all add: plot_def run_simps saved_files_simps printed_reports_simps)

lemma curve_quiet:
  "saved_files (fst (curve L history interpolate n epochs_x X' key legend)) = []"
  "printed_reports (fst (curve L history interpolate n epochs_x X' key legend)) = []"
  by (simp_all add: curve_def fst_andthen run_simps saved_files_simps printed_reports_simps
        plot_quiet split: option.splits sum.splits)

lemma plot_history_saved:
  "saved_files (fst (plot_history L history y_pred y_test n interpolate base)) =
     (if snd (plot_history L history y_pred y_test n interpolate base) = Inr ()
      then [base @ ''-'' @ format_1f L (projr (accuracy_score L y_test y_pred) * 100)
              @ ''acc.png'']
      else [])"
  by (simp add: plot_history_def Let_def fst_andthen snd_andthen run_simps saved_files_simps
        curve_quiet split: sum.splits option.splits)

lemma plot_history_unreported:
  "printed_reports (fst (plot_history L history y_pred y_test n interpolate base)) = []"
  by (simp add: plot_history_def Let_def fst_andthen run_simps printed_reports_simps
        curve_quiet split: sum.splits option.splits)

subsection \<open>The whole evaluation\<close>

lemma evaluate_model_saved:
  "saved_files (fst (evaluate_model L H y_pred y_test n scm interpolate base)) =
     (case H of
        None \<Rightarrow> []
      | Some history \<Rightarrow>
          if snd (evaluate_model L H y_pred y_test n scm interpolate base) = Inr ()
          then [base @ ''-'' @ format_1f L (projr (accuracy_score L y_test y_pred) * 100)
                  @ ''acc.png'']
          else [])"
  by (simp add: evaluate_model_def fst_andthen snd_andthen run_simps saved_files_simps
        plot_history_saved split: sum.splits option.splits)

lemma evaluate_model_accuracy:
  "snd (evaluate_model L H y_pred y_test n scm interpolate base) = Inr () \<Longrightarrow>
     \<exists>acc. accuracy_score L y_test y_pred = Inr acc"
  by (simp add: evaluate_model_def fst_andthen snd_andthen run_simps
        split: sum.splits option.splits)

lemma evaluate_model_saved_Some:
  assumes "Savefig fname \<in> set (fst (evaluate_model L H y_pred y_test n scm interpolate base))"
  shows "H \<noteq> None
     \<and> snd (evaluate_model L H y_pred y_test n scm interpolate base) = Inr ()
     \<and> fname = base @ ''-'' @ format_1f L (projr (accuracy_score L y_test y_pred) * 100)
                 @ ''acc.png''"
proof -
  from assms have f: "fname \<in> set (saved_files
      (fst (evaluate_model L H y_pred y_test n scm interpolate base)))"
    by (simp only: set_saved_files)
  show ?thesis
  proof (cases H)
    case None
    with f show ?thesis by (simp add: evaluate_model_saved)
  next
    case (Some history)
    show ?thesis
    proof (cases "snd (evaluate_model L H y_pred y_test n scm interpolate base) = Inr ()")
      case True
      with f Some show ?thesis by (simp add: evaluate_model_saved)
    next
      case False
      with f Some show ?thesis by (simp add: evaluate_model_saved)
    qed
  qed
qed

lemma evaluate_model_reports:
  "printed_reports (fst (evaluate_model L H y_pred y_test n scm interpolate base)) =
     (case confusion_matrix L y_test y_pred of
        Inl e \<Rightarrow> []
      | Inr cm \<Rightarrow>
          (case classification_report (validate_targets L) y_test y_pred 1 of
             Inl e \<Rightarrow> []
           | Inr rows \<Rightarrow> [rows]))"
  by (simp add: evaluate_model_def fst_andthen snd_andthen run_simps printed_reports_simps
        plot_history_unreported split: sum.splits option.splits)

lemma evaluate_model_report:
  assumes "PrintReport rows
             \<in> set (fst (evaluate_model L H y_pred y_test n scm interpolate base))"
  shows "classification_report (validate_targets L) y_test y_pred 1 = Inr rows"
proof -
  from assms have "rows \<in> set (printed_reports
      (fst (evaluate_model L H y_pred y_test n scm interpolate base)))"
    by (simp only: set_printed_reports)
  then show ?thesis
    unfolding evaluate_model_reports by (simp split: sum.splits)
qed

lemma report_for_fields:
  "label (report_for y_true y_pred z c) = c"
  "precision (report_for y_true y_pred z c) =
     (if count_list y_pred c = 0 then z
      else real (tp_sum y_true y_pred c) / real (count_list y_pred c))"
  "recall (report_for y_true y_pred z c) =
     (if count_list y_true c = 0 then z
      else real (tp_sum y_true y_pred c) / real (count_list y_true c))"
  by (simp_all add: report_for_def prf_divide_def Let_def)

subsection \<open>The stand-in toolkit on two small runs\<close>

lemma plain_fields:
  "validate_targets plain_toolkit t p = (if length t = length p then None else Some ValueError)"
  "accuracy_score plain_toolkit t p =
     (if length t = length p then Inr (agreement t p) else Inl ValueError)"
  "cohen_kappa_score plain_toolkit t p =
     (if length t = length p
      then Inr ((agreement t p - chance_agreement t p) / (1 - chance_agreement t p))
      else Inl ValueError)"
  "confusion_matrix plain_toolkit t p =
     (if length t = length p
      then Inr (map (\<lambda>a. map (\<lambda>b. length (filter (\<lambda>(x, y). x = a \<and> y = b) (zip t p)))
                             (unique_labels t p))
                    (unique_labels t p))
      else Inl ValueError)"
  "savefig plain_toolkit f = None"
  by (simp_all add: plain_toolkit_def)

lemma plain_formats:
  "format_1f plain_toolkit 75 = ''75.0''"
  "format_2f plain_toolkit 75 = ''75.00''"
  "format_1f plain_toolkit (700 / 11) = ''63.6''"
  by (simp_all add: plain_toolkit_def format_fixed_def digits.simps Let_def)

lemma plain_run_metrics:
  "accuracy_score plain_toolkit [3, 5, 5, 8] [3, 5, 8, 8] = Inr (3 / 4)"
  "cohen_kappa_score plain_toolkit [3, 5, 5, 8] [3, 5, 8, 8] = Inr (7 / 11)"
  "confusion_matrix plain_toolkit [3, 5, 5, 8] [3, 5, 8, 8]
     = Inr [[1, 0, 0], [0, 1, 1], [0, 0, 1]]"
  by (simp_all add: plain_fields agreement_def chance_agreement_def unique_labels_def)

lemma plain_run_report:
  "classification_report (validate_targets plain_toolkit) [3, 5, 5, 8] [3, 5, 8, 8] 1 =
     Inr [\<lparr>label = 3, precision = 1, recall = 1, f1_score = 1, support = 1\<rparr>,
          \<lparr>label = 5, precision = 1, recall = 1 / 2, f1_score = 2 / 3, support = 2\<rparr>,
          \<lparr>label = 8, precision = 1 / 2, recall = 1, f1_score = 2 / 3, support = 1\<rparr>]"
  by (simp add: classification_report_def plain_fields unique_labels_def report_for_def
        prf_divide_def tp_sum_def Let_def)

lemma arange_2: "arange 2 = [0, 1]"
  by (simp add: arange_def upt_rec)

lemma plain_run_plot:
  "snd (plot_history plain_toolkit two_epochs [3, 5, 8, 8] [3, 5, 5, 8] 2 False ''plot.png'')
     = Inr ()"
  by (simp add: plot_history_def Let_def snd_andthen run_simps curve_def plot_def arange_2
        array_min_def array_max_def slice_to_def plain_run_metrics plain_fields two_epochs_def)

lemma plain_run:
  "snd (evaluate_model plain_toolkit (Some two_epochs) [3, 5, 8, 8] [3, 5, 5, 8] 2 False False
          ''plot.png'') = Inr ()"
  by (simp add: evaluate_model_def snd_andthen run_simps plain_run_metrics plain_run_report
        plain_run_plot)

lemma plain_absent_report:
  "classification_report (validate_targets plain_toolkit) [3, 5, 5] [3, 3, 8] 1 =
     Inr [\<lparr>label = 3, precision = 1 / 2, recall = 1, f1_score = 2 / 3, support = 1\<rparr>,
          \<lparr>label = 5, precision = 1, recall = 0, f1_score = 0, support = 2\<rparr>,
          \<lparr>label = 8, precision = 0, recall = 1, f1_score = 0, support = 0\<rparr>]"
  by (simp add: classification_report_def plain_fields unique_labels_def report_for_def
        prf_divide_def tp_sum_def Let_def)

lemma plain_absent_printed:
  "PrintReport
     [\<lparr>label = 3, precision = 1 / 2, recall = 1, f1_score = 2 / 3, support = 1\<rparr>,
      \<lparr>label = 5, precision = 1, recall = 0, f1_score = 0, support = 2\<rparr>,
      \<lparr>label = 8, precision = 0, recall = 1, f1_score = 0, support = 0\<rparr>]
   \<in> set (fst (evaluate_model plain_toolkit None [3, 3, 8] [3, 5, 5] 2 True False ''plot.png''))"
proof -
  have "confusion_matrix plain_toolkit [3, 5, 5] [3, 3, 8] = Inr [[1, 0, 0], [1, 0, 1], [0, 0, 0]]"
    by (simp add: plain_fields unique_labels_def)
  then have "printed_reports
      (fst (evaluate_model plain_toolkit None [3, 3, 8] [3, 5, 5] 2 True False ''plot.png'')) =
     [[\<lparr>label = 3, precision = 1 / 2, recall = 1, f1_score = 2 / 3, support = 1\<rparr>,
       \<lparr>label = 5, precision = 1, recall = 0, f1_score = 0, support = 2\<rparr>,
       \<lparr>label = 8, precision = 0, recall = 1, f1_score = 0, support = 0\<rparr>]]"
    unfolding evaluate_model_reports by (simp add: plain_absent_report)
  then have "[\<lparr>label = 3, precision = 1 / 2, recall = 1, f1_score = 2 / 3, support = 1\<rparr>,
       \<lparr>label = 5, precision = 1, recall = 0, f1_score = 0, support = 2\<rparr>,
       \<lparr>label = 8 :: nat, precision = 0, recall = 1, f1_score = 0, support = 0\<rparr>]
     \<in> set (printed_reports
          (fst (evaluate_model plain_toolkit None [3, 3, 8] [3, 5, 5] 2 True False ''plot.png'')))"
    by simp
  then show ?thesis by (simp only: set_printed_reports)
qed

subsection \<open>Zero division in the classification report\<close>

text \<open>
  C7. The classification report that \<open>evaluate_model\<close> computes treats a zero division
  as 1.0 and never raises for it, for every pair of prediction and truth label arrays: in
  every report it prints, a class absent from the predictions has precision 1 and a class
  absent from the truth labels has recall 1, and the report call ends in an exception only
  when the library's validation of the two arrays refuses them.
\<close>

theorem evaluate_model_zero_division:
  "(classification_report (validate_targets L) y_test y_pred 1 = Inl e \<longrightarrow>
      validate_targets L y_test y_pred = Some e)
   \<and> (PrintReport rows \<in> set (fst (evaluate_model L H y_pred y_test n scm interpolate base))
        \<and> row \<in> set rows \<longrightarrow>
        (count_list y_pred (label row) = 0 \<longrightarrow> precision row = 1) \<and>
        (count_list y_test (label row) = 0 \<longrightarrow> recall row = 1))"
proof (intro conjI impI)
  assume "classification_report (validate_targets L) y_test y_pred 1 = Inl e"
  then show "validate_targets L y_test y_pred = Some e"
    by (simp add: classification_report_def split: option.splits)
next
  assume a: "PrintReport rows
               \<in> set (fst (evaluate_model L H y_pred y_test n scm interpolate base))
             \<and> row \<in> set rows"
  then have "classification_report (validate_targets L) y_test y_pred 1 = Inr rows"
    using evaluate_model_report by blast
  then have "rows = map (report_for y_test y_pred 1) (unique_labels y_test y_pred)"
    by (simp add: classification_report_def split: option.splits)
  with a obtain c where row: "row = report_for y_test y_pred 1 c" by auto
  { assume "count_list y_pred (label row) = 0"
    then show "precision row = 1" unfolding row by (simp add: report_for_fields) }
  { assume "count_list y_test (label row) = 0"
    then show "recall row = 1" unfolding row by (simp add: report_for_fields) }
qed

theorem evaluate_model_zero_division_witness:
  "PrintReport
     [\<lparr>label = 3, precision = 1 / 2, recall = 1, f1_score = 2 / 3, support = 1\<rparr>,
      \<lparr>label = 5, precision = 1, recall = 0, f1_score = 0, support = 2\<rparr>,
      \<lparr>label = 8, precision = 0, recall = 1, f1_score = 0, support = 0\<rparr>]
     \<in> set (fst (evaluate_model plain_toolkit None [3, 3, 8] [3, 5, 5] 2 True False ''plot.png''))
   \<and> count_list [3, 3, 8 :: nat] 5 = 0
   \<and> precision \<lparr>label = 5 :: nat, precision = 1, recall = 0, f1_score = 0, support = 2\<rparr> = 1
   \<and> count_list [3, 5, 5 :: nat] 8 = 0
   \<and> recall \<lparr>label = 8 :: nat, precision = 0, recall = 1, f1_score = 0, support = 0\<rparr> = 1
   \<and> classification_report (validate_targets plain_toolkit) [3] [3, 5] 1 = Inl ValueError
   \<and> validate_targets plain_toolkit [3] [3, 5] = Some ValueError"
proof -
  let ?r3 = "\<lparr>label = 3 :: nat, precision = 1 / 2, recall = 1, f1_score = 2 / 3, support = 1\<rparr>"
  let ?r5 = "\<lparr>label = 5 :: nat, precision = 1, recall = 0, f1_score = 0, support = 2\<rparr>"
  let ?r8 = "\<lparr>label = 8 :: nat, precision = 0, recall = 1, f1_score = 0, support = 0\<rparr>"
  let ?E = "evaluate_model plain_toolkit None [3, 3, 8] [3, 5, 5] 2 True False ''plot.png''"
  have p: "PrintReport [?r3, ?r5, ?r8] \<in> set (fst ?E)"
    by (rule plain_absent_printed)
  have m5: "?r5 \<in> set [?r3, ?r5, ?r8]" and m8: "?r8 \<in> set [?r3, ?r5, ?r8]"
    by simp_all
  have c5: "count_list [3, 3, 8 :: nat] (label ?r5) = 0"
    and c8: "count_list [3, 5, 5 :: nat] (label ?r8) = 0"
    by simp_all
  have e: "classification_report (validate_targets plain_toolkit) [3] [3, 5] 1 = Inl ValueError"
    by (simp add: classification_report_def plain_fields)
  from evaluate_model_zero_division
         [of plain_toolkit "[3, 5, 5]" "[3, 3, 8]" ValueError "[?r3, ?r5, ?r8]" None 2 True False
             "''plot.png''" ?r5] p m5 c5
  have p5: "precision ?r5 = 1" by blast
  from evaluate_model_zero_division
         [of plain_toolkit "[3, 5, 5]" "[3, 3, 8]" ValueError "[?r3, ?r5, ?r8]" None 2 True False
             "''plot.png''" ?r8] p m8 c8
  have r8: "recall ?r8 = 1" by blast
  from evaluate_model_zero_division
         [of plain_toolkit "[3]" "[3, 5]" ValueError "[]" None 2 True False "''plot.png''" ?r8] e
  have v: "validate_targets plain_toolkit [3] [3, 5] = Some ValueError" by blast
  from c5 c8 have "count_list [3, 3, 8 :: nat] 5 = 0" and "count_list [3, 5, 5 :: nat] 8 = 0"
    by simp_all
  with p p5 r8 e v show ?thesis by blast
qed

subsection \<open>The name of the figure file\<close>

text \<open>
  C9. When \<open>evaluate_model\<close> is given a history object, the training-curve figure it
  persists is named by the caller-supplied base name followed by the overall accuracy as a
  percentage, in the format \<open>{base}-{accuracy:.1f}acc.png\<close>: a file is written only with a
  history and only under that name, and an evaluation with a history that ends without an
  exception has written exactly that one file.
\<close>

theorem evaluate_model_figure_name:
  "(Savefig fname \<in> set (fst (evaluate_model L H y_pred y_test n scm interpolate base)) \<longrightarrow>
      H \<noteq> None \<and> (\<exists>acc. accuracy_score L y_test y_pred = Inr acc
                      \<and> fname = base @ ''-'' @ format_1f L (acc * 100) @ ''acc.png''))
   \<and> (H \<noteq> None \<and> snd (evaluate_model L H y_pred y_test n scm interpolate base) = Inr () \<longrightarrow>
      (\<exists>acc. accuracy_score L y_test y_pred = Inr acc
         \<and> saved_files (fst (evaluate_model L H y_pred y_test n scm interpolate base))
             = [base @ ''-'' @ format_1f L (acc * 100) @ ''acc.png'']))"
proof (rule conjI; rule impI)
  assume "Savefig fname \<in> set (fst (evaluate_model L H y_pred y_test n scm interpolate base))"
  from evaluate_model_saved_Some [OF this]
  have H: "H \<noteq> None"
    and ok: "snd (evaluate_model L H y_pred y_test n scm interpolate base) = Inr ()"
    and fname: "fname = base @ ''-'' @ format_1f L (projr (accuracy_score L y_test y_pred) * 100)
                  @ ''acc.png''"
    by blast+
  from evaluate_model_accuracy [OF ok] obtain acc where
    acc: "accuracy_score L y_test y_pred = Inr acc" by blast
  have "fname = base @ ''-'' @ format_1f L (acc * 100) @ ''acc.png''"
    unfolding fname acc by simp
  with H acc show "H \<noteq> None \<and> (\<exists>acc. accuracy_score L y_test y_pred = Inr acc
                      \<and> fname = base @ ''-'' @ format_1f L (acc * 100) @ ''acc.png'')"
    by blast
next
  assume a: "H \<noteq> None \<and> snd (evaluate_model L H y_pred y_test n scm interpolate base) = Inr ()"
  then obtain history where H: "H = Some history" by blast
  from a have ok: "snd (evaluate_model L H y_pred y_test n scm interpolate base) = Inr ()"
    by (rule conjunct2)
  from evaluate_model_accuracy [OF ok] obtain acc where
    acc: "accuracy_score L y_test y_pred = Inr acc" by blast
  have "saved_files (fst (evaluate_model L H y_pred y_test n scm interpolate base))
             = [base @ ''-'' @ format_1f L (acc * 100) @ ''acc.png'']"
    unfolding evaluate_model_saved using H ok acc by simp
  with acc show "\<exists>acc. accuracy_score L y_test y_pred = Inr acc
         \<and> saved_files (fst (evaluate_model L H y_pred y_test n scm interpolate base))
             = [base @ ''-'' @ format_1f L (acc * 100) @ ''acc.png'']"
    by blast
qed

theorem evaluate_model_figure_name_witness:
  "Some two_epochs \<noteq> None
   \<and> snd (evaluate_model plain_toolkit (Some two_epochs) [3, 5, 8, 8] [3, 5, 5, 8] 2 False False
            ''plot.png'') = Inr ()
   \<and> accuracy_score plain_toolkit [3, 5, 5, 8] [3, 5, 8, 8] = Inr (3 / 4)
   \<and> saved_files (fst (evaluate_model plain_toolkit (Some two_epochs) [3, 5, 8, 8] [3, 5, 5, 8] 2
                         False False ''plot.png'')) = [''plot.png-75.0acc.png'']
   \<and> Savefig ''plot.png-75.0acc.png''
       \<in> set (fst (evaluate_model plain_toolkit (Some two_epochs) [3, 5, 8, 8] [3, 5, 5, 8] 2
                      False False ''plot.png''))"
proof -
  let ?E = "evaluate_model plain_toolkit (Some two_epochs) [3, 5, 8, 8] [3, 5, 5, 8] 2
              False False ''plot.png''"
  have h: "Some two_epochs \<noteq> None \<and> snd ?E = Inr ()"
    using plain_run by simp
  from evaluate_model_figure_name
         [of "''plot.png-75.0acc.png''" plain_toolkit "Some two_epochs" "[3, 5, 8, 8]"
             "[3, 5, 5, 8]" 2 False False "''plot.png''"]
  have "\<exists>acc. accuracy_score plain_toolkit [3, 5, 5, 8] [3, 5, 8, 8] = Inr acc
         \<and> saved_files (fst ?E)
             = [''plot.png'' @ ''-'' @ format_1f plain_toolkit (acc * 100) @ ''acc.png'']"
    using h by blast
  then obtain acc where a: "accuracy_score plain_toolkit [3, 5, 5, 8] [3, 5, 8, 8] = Inr acc"
    and sv: "saved_files (fst ?E)
               = [''plot.png'' @ ''-'' @ format_1f plain_toolkit (acc * 100) @ ''acc.png'']"
    by blast
  from a have acc: "acc = 3 / 4" by (simp add: plain_run_metrics)
  have "format_1f plain_toolkit (acc * 100) = ''75.0''"
    unfolding acc by (simp add: plain_formats)
  with sv have s: "saved_files (fst ?E) = [''plot.png-75.0acc.png'']"
    by simp
  then have "''plot.png-75.0acc.png'' \<in> set (saved_files (fst ?E))"
    by simp
  then have "Savefig ''plot.png-75.0acc.png'' \<in> set (fst ?E)"
    by (simp only: set_saved_files)
  with h s a acc show ?thesis by blast
qed

end
